theory Spec2Isabelle
  imports Complex_Main
begin

section \<open>Python values\<close>

text \<open>
  The scraper works on what \<^verbatim>\<open>json.loads\<close> returns: \<^verbatim>\<open>None\<close>, booleans, integers,
  strings, lists and dictionaries with string keys. A dictionary is an association list in
  insertion order; \<^verbatim>\<open>json.loads\<close> keeps one entry per key. Numbers in the decoded
  documents are integers (the platform's counters and cursors); a document holding a
  fractional number is outside this model.
\<close>

datatype json =
    JNull
  | JBool bool
  | JInt int
  | JStr string
  | JList "json list"
  | JObj "(string \<times> json) list"

text \<open>The exception classes the code can meet; \<open>TransportFault\<close> stands for any exception
  of the HTTP client that is not the one its caller catches.\<close>

datatype exn =
    TypeError
  | KeyError
  | AttributeError
  | JSONDecodeError
  | OverflowError
  | ZeroDivisionError
  | TimestampError
  | TransportFault

definition bindE :: "exn + 'a \<Rightarrow> ('a \<Rightarrow> exn + 'b) \<Rightarrow> exn + 'b" where
  "bindE m f = (case m of Inl e \<Rightarrow> Inl e | Inr x \<Rightarrow> f x)"

subsection \<open>Dictionaries\<close>

text \<open>\<^verbatim>\<open>x[k]\<close> for a string key: \<^verbatim>\<open>KeyError\<close> on a dictionary without the key,
  \<^verbatim>\<open>TypeError\<close> on everything that is not a dictionary.\<close>

definition py_subscript :: "json \<Rightarrow> string \<Rightarrow> exn + json" where
  "py_subscript x k =
     (case x of
        JObj d \<Rightarrow> (case map_of d k of None \<Rightarrow> Inl KeyError | Some v \<Rightarrow> Inr v)
      | _ \<Rightarrow> Inl TypeError)"

text \<open>\<^verbatim>\<open>x.get(k, default)\<close>: only a dictionary has the method.\<close>

definition py_get :: "json \<Rightarrow> string \<Rightarrow> json \<Rightarrow> exn + json" where
  "py_get x k dflt =
     (case x of
        JObj d \<Rightarrow> (case map_of d k of None \<Rightarrow> Inr dflt | Some v \<Rightarrow> Inr v)
      | _ \<Rightarrow> Inl AttributeError)"

text \<open>\<^verbatim>\<open>d.get(k, "")\<close> on a dictionary.\<close>

definition get_or_empty :: "(string \<times> json) list \<Rightarrow> string \<Rightarrow> json" where
  "get_or_empty d k = (case map_of d k of None \<Rightarrow> JStr [] | Some v \<Rightarrow> v)"

text \<open>\<^verbatim>\<open>d[k] = v\<close>: an existing key keeps its place, a new one goes last.\<close>

fun dict_set :: "(string \<times> json) list \<Rightarrow> string \<Rightarrow> json \<Rightarrow> (string \<times> json) list" where
  "dict_set [] k v = [(k, v)]"
| "dict_set ((k', v') # d) k v =
     (if k' = k then (k', v) # d else (k', v') # dict_set d k v)"

text \<open>\<^verbatim>\<open>{**a, **b}\<close>: the entries of \<open>a\<close>, then those of \<open>b\<close> written over them in order.\<close>

definition dict_merge :: "(string \<times> json) list \<Rightarrow> (string \<times> json) list \<Rightarrow> (string \<times> json) list" where
  "dict_merge a b = foldl (\<lambda>d (k, v). dict_set d k v) a b"

text \<open>Iterating a value (\<^verbatim>\<open>for x in v\<close>): a list gives its elements, a dictionary its
  keys, a string its characters (here the bytes of the string, where Python gives its code
  points; every element is a string either way); the rest is not iterable.\<close>

definition py_iter :: "json \<Rightarrow> exn + json list" where
  "py_iter v =
     (case v of
        JList xs \<Rightarrow> Inr xs
      | JObj d \<Rightarrow> Inr (map (\<lambda>(k, _). JStr k) d)
      | JStr s \<Rightarrow> Inr (map (\<lambda>c. JStr [c]) s)
      | _ \<Rightarrow> Inl TypeError)"

subsection \<open>Equality and comparison\<close>

text \<open>Python's \<^verbatim>\<open>==\<close>: a boolean is the integer 0 or 1, lists compare element by element,
  dictionaries by their entries whatever the order.\<close>

fun py_eq :: "json \<Rightarrow> json \<Rightarrow> bool"
  and py_eq_list :: "json list \<Rightarrow> json list \<Rightarrow> bool"
  and py_eq_items :: "(string \<times> json) list \<Rightarrow> (string \<times> json) list \<Rightarrow> bool" where
  "py_eq JNull y = (y = JNull)"
| "py_eq (JBool a) y =
     (case y of JBool b \<Rightarrow> a = b | JInt n \<Rightarrow> n = (if a then 1 else 0) | _ \<Rightarrow> False)"
| "py_eq (JInt m) y =
     (case y of JInt n \<Rightarrow> m = n | JBool b \<Rightarrow> m = (if b then 1 else 0) | _ \<Rightarrow> False)"
| "py_eq (JStr s) y = (y = JStr s)"
| "py_eq (JList xs) y = (case y of JList ys \<Rightarrow> py_eq_list xs ys | _ \<Rightarrow> False)"
| "py_eq (JObj d) y =
     (case y of JObj d' \<Rightarrow> length d = length d' \<and> py_eq_items d d' | _ \<Rightarrow> False)"
| "py_eq_list [] ys = (ys = [])"
| "py_eq_list (x # xs) ys =
     (case ys of [] \<Rightarrow> False | y # ys' \<Rightarrow> py_eq x y \<and> py_eq_list xs ys')"
| "py_eq_items [] d' = True"
| "py_eq_items ((k, v) # d) d' =
     (case map_of d' k of None \<Rightarrow> False | Some v' \<Rightarrow> py_eq v v' \<and> py_eq_items d d')"

text \<open>The integer a value counts as in arithmetic and ordering: an \<^verbatim>\<open>int\<close>, or a
  \<^verbatim>\<open>bool\<close> (a subclass of \<^verbatim>\<open>int\<close>).\<close>

definition as_int :: "json \<Rightarrow> int option" where
  "as_int v = (case v of JInt n \<Rightarrow> Some n | JBool b \<Rightarrow> Some (if b then 1 else 0) | _ \<Rightarrow> None)"

section \<open>Floating point\<close>

text \<open>
  A Python \<^verbatim>\<open>float\<close> is an IEEE 754 binary64 number. \<open>Finite m p\<close> is the finite value
  \<open>m * 2 ^ p\<close>, kept as the format stores it: \<open>2 ^ 52 \<le> \<bar>m\<bar> < 2 ^ 53\<close> and
  \<open>- 1074 \<le> p \<le> 971\<close> for a normal number, \<open>\<bar>m\<bar> < 2 ^ 52\<close> and \<open>p = - 1074\<close> for a
  subnormal one and for zero (the two zeros are not told apart, as \<^verbatim>\<open>==\<close> does not).
  \<open>round_ratio n d\<close> rounds the rational \<open>n / d\<close> (\<open>d > 0\<close>) to the nearest such value,
  ties to even, with gradual underflow; beyond the largest finite value it gives an
  infinity.
\<close>

datatype pyfloat = Finite int int | Inf bool | NaN

datatype pynum = PInt int | PFloat pyfloat

definition pow2 :: "int \<Rightarrow> rat" where
  "pow2 p = (if 0 \<le> p then 2 ^ nat p else 1 / 2 ^ nat (- p))"

definition float_value :: "pyfloat \<Rightarrow> rat option" where
  "float_value x = (case x of Finite m p \<Rightarrow> Some (of_int m * pow2 p) | _ \<Rightarrow> None)"

fun bitlen :: "nat \<Rightarrow> nat" where
  "bitlen n = (if n = 0 then 0 else Suc (bitlen (n div 2)))"

text \<open>\<open>scaled_ge n d k\<close>: is \<open>n / d \<ge> 2 ^ k\<close>, for \<open>d > 0\<close> and any integer \<open>k\<close>.\<close>

definition scaled_ge :: "int \<Rightarrow> int \<Rightarrow> int \<Rightarrow> bool" where
  "scaled_ge n d k = (if 0 \<le> k then d * 2 ^ nat k \<le> n else d \<le> n * 2 ^ nat (- k))"

text \<open>The integer \<open>e\<close> with \<open>2 ^ e \<le> n / d < 2 ^ (e + 1)\<close>, for positive \<open>n\<close> and \<open>d\<close>.\<close>

definition floor_log2 :: "int \<Rightarrow> int \<Rightarrow> int" where
  "floor_log2 n d =
     (let k = int (bitlen (nat n)) - int (bitlen (nat d))
      in if scaled_ge n d k then k else k - 1)"

definition round_half_even :: "int \<Rightarrow> int \<Rightarrow> int" where
  "round_half_even num den =
     (let m = num div den; r = num mod den
      in if den < 2 * r \<or> (2 * r = den \<and> odd m) then m + 1 else m)"

definition round_ratio :: "int \<Rightarrow> int \<Rightarrow> pyfloat" where
  "round_ratio n d =
     (if n = 0 then Finite 0 (- 1074)
      else
        let a = \<bar>n\<bar>;
            e = floor_log2 a d;
            p = max e (- 1022) - 52;
            m = (if 0 \<le> p then round_half_even a (d * 2 ^ nat p)
                 else round_half_even (a * 2 ^ nat (- p)) d);
            (m', p') = (if m = 2 ^ 53 then (2 ^ 52, p + 1) else (m, p))
        in if 971 < p' then Inf (n < 0)
           else Finite (if n < 0 then - m' else m') p')"

text \<open>\<^verbatim>\<open>float(n)\<close>, also the conversion of an integer operand next to a float.\<close>

definition py_float_of_int :: "int \<Rightarrow> exn + pyfloat" where
  "py_float_of_int n =
     (case round_ratio n 1 of Finite m p \<Rightarrow> Inr (Finite m p) | _ \<Rightarrow> Inl OverflowError)"

text \<open>\<^verbatim>\<open>a / b\<close> on integers: the exact quotient rounded once; too large a quotient
  raises \<^verbatim>\<open>OverflowError\<close>.\<close>

definition py_truediv :: "int \<Rightarrow> int \<Rightarrow> exn + pyfloat" where
  "py_truediv a b =
     (if b = 0 then Inl ZeroDivisionError
      else (case (if b < 0 then round_ratio (- a) (- b) else round_ratio a b) of
              Finite m p \<Rightarrow> Inr (Finite m p)
            | _ \<Rightarrow> Inl OverflowError))"

text \<open>\<^verbatim>\<open>x * y\<close> on floats: the exact product rounded once; overflow gives an infinity.\<close>

definition py_float_mul :: "pyfloat \<Rightarrow> pyfloat \<Rightarrow> pyfloat" where
  "py_float_mul x y =
     (case (x, y) of
        (Finite m p, Finite m' p') \<Rightarrow>
          (if 0 \<le> p + p' then round_ratio (m * m' * 2 ^ nat (p + p')) 1
           else round_ratio (m * m') (2 ^ nat (- (p + p'))))
      | (Finite m p, Inf s) \<Rightarrow> (if m = 0 then NaN else Inf (s \<noteq> (m < 0)))
      | (Inf s, Finite m p) \<Rightarrow> (if m = 0 then NaN else Inf (s \<noteq> (m < 0)))
      | (Inf s, Inf t) \<Rightarrow> Inf (s \<noteq> t)
      | _ \<Rightarrow> NaN)"

section \<open>The engagement rate\<close>

text \<open>
  \<^verbatim>\<open>return (likes + comments + shares) / views * 100 if views > 0 else 0\<close>\<^medskip>

  The quotient of the two integers is a float; the literal \<^verbatim>\<open>100\<close> is converted to a
  float for the product; the other branch returns the integer \<^verbatim>\<open>0\<close>.
\<close>

definition calculate_engagement_rate :: "int \<Rightarrow> int \<Rightarrow> int \<Rightarrow> int \<Rightarrow> exn + pynum" where
  "calculate_engagement_rate likes comments shares views =
     (if 0 < views
      then bindE (py_truediv (likes + comments + shares) views)
             (\<lambda>q. bindE (py_float_of_int 100)
                (\<lambda>h. Inr (PFloat (py_float_mul q h))))
      else Inr (PInt 0))"


text \<open>The call with the values of a decoded item. \<^verbatim>\<open>views > 0\<close> is evaluated first and
  raises on a value that is not a number; the sum and the quotient raise when a counter is
  not a number (strings and lists add up, but do not divide).\<close>

definition calculate_engagement_rate_json :: "json \<Rightarrow> json \<Rightarrow> json \<Rightarrow> json \<Rightarrow> exn + pynum" where
  "calculate_engagement_rate_json likes comments shares views =
     (case as_int views of
        None \<Rightarrow> Inl TypeError
      | Some v \<Rightarrow>
          if 0 < v
          then (case (as_int likes, as_int comments, as_int shares) of
                  (Some l, Some c, Some s) \<Rightarrow> calculate_engagement_rate l c s v
                | _ \<Rightarrow> Inl TypeError)
          else Inr (PInt 0))"

section \<open>The outside world\<close>

text \<open>
  A GET is named by its endpoint and the parameters the scraper sets for it: the search
  (\<^verbatim>\<open>keyword\<close>, \<^verbatim>\<open>offset\<close>, \<^verbatim>\<open>limit\<close>), a profile page (the author's id in the URL), the
  comment list (\<^verbatim>\<open>aweme_id\<close>, \<^verbatim>\<open>cursor\<close>, \<^verbatim>\<open>limit\<close>) and the reply list
  (\<^verbatim>\<open>comment_id\<close>, \<^verbatim>\<open>item_id\<close>, \<^verbatim>\<open>cursor\<close>). The fixed headers, cookies and base
  parameters of \<^verbatim>\<open>components.constants\<close> are the same in every request and are left out.
\<close>

datatype request =
    SearchReq string int int
  | ProfileReq json
  | CommentReq json int int
  | ReplyReq json json string

text \<open>What a request comes back with: a status code and a body, the exception class the
  helper catches (\<^verbatim>\<open>httpx.HTTPError\<close>, \<^verbatim>\<open>requests.RequestException\<close>), or any other
  exception.\<close>

datatype http_result = Status int string | CaughtError | OtherError

text \<open>An f-string: literal text and formatted values.\<close>

datatype fpart = Lit string | Fmt json

text \<open>The form \<^verbatim>\<open>fill_profile_data\<close> builds, by its fields that depend on the record; the
  others (\<^verbatim>\<open>avatar_url\<close>, \<^verbatim>\<open>location\<close>, \<^verbatim>\<open>fake_follower_rate\<close>,
  \<^verbatim>\<open>avg_engagement_by_day\<close>, \<^verbatim>\<open>avg_posting_time\<close>, \<^verbatim>\<open>platform_ids\<close>,
  \<^verbatim>\<open>category_ids\<close>, \<^verbatim>\<open>active_status\<close>, \<^verbatim>\<open>platform_metrics\<close>) are constants.\<close>

record profile_form =
  form_name :: json
  username :: json
  email :: "fpart list"
  bio :: json
  profile_url :: "fpart list"
  date_last_post :: string
  follower_count :: json
  form_engagement_rate :: pynum

text \<open>The dictionary \<^verbatim>\<open>process_video_item\<close> assembles; \<open>comments\<close> is \<open>None\<close> until the
  key is assigned.\<close>

record processed_item =
  author :: "(string \<times> json) list"
  video :: json
  description :: json
  item_id :: json
  create_time :: json
  hashtags :: json
  engagement_rate :: pynum
  stats :: json
  comments :: "json list option"

datatype log_msg =
    ReturningData
  | UnableStatus int
  | UnableError
  | AuthorMetadataError exn
  | DataExtractionError exn
  | VideoProcessingError exn
  | CommentExtractionError exn
  | SavedSuccessfully json
  | SaveError exn

text \<open>What the program does to the world, in order: requests sent and lines logged.\<close>

datatype event = Get request | Post profile_form | Log log_msg

type_synonym world = "event list"

text \<open>
  The environment: the answer of the network to a request may depend on everything that
  happened before; \<^verbatim>\<open>json.loads\<close> gives \<open>None\<close> where it raises; the last field is
  \<^verbatim>\<open>datetime.fromtimestamp(t).strftime("%Y-%m-%d %H:%M:%S")\<close>.
\<close>

record env =
  http_get :: "world \<Rightarrow> request \<Rightarrow> http_result"
  http_post :: "world \<Rightarrow> profile_form \<Rightarrow> http_result"
  json_loads :: "string \<Rightarrow> json option"
  strftime_timestamp :: "json \<Rightarrow> exn + string"

section \<open>helpers.py\<close>

text \<open>\<^verbatim>\<open>get_request_data_async\<close>: the body on status 200, \<^verbatim>\<open>None\<close> on another status or on
  \<^verbatim>\<open>httpx.HTTPError\<close>; any other exception leaves the function.\<close>

definition get_request_data_async :: "env \<Rightarrow> request \<Rightarrow> world \<Rightarrow> (exn + string option) \<times> world" where
  "get_request_data_async E req w =
     (case http_get E w req of
        Status code text \<Rightarrow>
          if code = 200 then (Inr (Some text), w @ [Get req, Log ReturningData])
          else (Inr None, w @ [Get req, Log (UnableStatus code)])
      | CaughtError \<Rightarrow> (Inr None, w @ [Get req, Log UnableError])
      | OtherError \<Rightarrow> (Inl TransportFault, w @ [Get req]))"

text \<open>\<^verbatim>\<open>input_data_to_api\<close>: one POST. Status 200 returns the body; status 422 runs
  \<^verbatim>\<open>i = 0\<close> and falls off the end of the function, which returns \<^verbatim>\<open>None\<close>; any other
  status logs and returns \<^verbatim>\<open>None\<close>, as \<^verbatim>\<open>requests.RequestException\<close> does.\<close>

definition input_data_to_api :: "env \<Rightarrow> profile_form \<Rightarrow> world \<Rightarrow> (exn + string option) \<times> world" where
  "input_data_to_api E json_data w =
     (case http_post E w json_data of
        Status code text \<Rightarrow>
          if code = 200 then (Inr (Some text), w @ [Post json_data, Log ReturningData])
          else if code = 422 then (Inr None, w @ [Post json_data])
          else (Inr None, w @ [Post json_data, Log (UnableStatus code)])
      | CaughtError \<Rightarrow> (Inr None, w @ [Post json_data, Log UnableError])
      | OtherError \<Rightarrow> (Inl TransportFault, w @ [Post json_data]))"

text \<open>\<^verbatim>\<open>json.loads(data)\<close> on what a GET returned: \<^verbatim>\<open>TypeError\<close> on \<^verbatim>\<open>None\<close>.\<close>

definition py_json_loads :: "env \<Rightarrow> string option \<Rightarrow> exn + json" where
  "py_json_loads E data =
     (case data of
        None \<Rightarrow> Inl TypeError
      | Some text \<Rightarrow> (case json_loads E text of None \<Rightarrow> Inl JSONDecodeError | Some j \<Rightarrow> Inr j))"

section \<open>input\_api.py\<close>


definition fill_profile_data :: "env \<Rightarrow> processed_item \<Rightarrow> exn + profile_form" where
  "fill_profile_data E data =
     (let author_data = author data in
      bindE (strftime_timestamp E (create_time data))
        (\<lambda>date. Inr \<lparr>
           form_name = get_or_empty author_data ''nickname'',
           username = get_or_empty author_data ''uniqueId'',
           email = [Fmt (get_or_empty author_data ''uniqueId''), Lit ''@gmail.com''],
           bio = get_or_empty author_data ''signature'',
           profile_url = [Lit ''https://www.tiktok.com/'', Fmt (get_or_empty author_data ''uniqueId'')],
           date_last_post = date,
           follower_count = get_or_empty author_data ''followerCount'',
           form_engagement_rate = engagement_rate data \<rparr>))"


section \<open>scraper.py\<close>

subsection \<open>get\_author\_metadata\<close>

text \<open>
  \<^verbatim>\<open>re.search(r'(?<="stats":)([^}]*)', text)\<close>: the leftmost place that follows the
  text \<^verbatim>\<open>"stats":\<close>, and from there the longest run of characters other than \<^verbatim>\<open>}\<close>.
\<close>

definition stats_anchor :: string where
  "stats_anchor = ''\"stats\":''"

fun search_stats :: "string \<Rightarrow> string option" where
  "search_stats [] = None"
| "search_stats (c # cs) =
     (if take (length stats_anchor) (c # cs) = stats_anchor
      then Some (takeWhile (\<lambda>x. x \<noteq> CHR ''}'') (drop (length stats_anchor) (c # cs)))
      else search_stats cs)"

text \<open>The body of the \<^verbatim>\<open>try\<close>, after the request: \<^verbatim>\<open>re.search\<close> raises on \<^verbatim>\<open>None\<close>,
  \<^verbatim>\<open>match.group\<close> raises when nothing matched, \<^verbatim>\<open>json.loads\<close> when the text is not
  JSON.\<close>

definition parse_author_stats :: "env \<Rightarrow> string option \<Rightarrow> exn + json" where
  "parse_author_stats E data =
     (case data of
        None \<Rightarrow> Inl TypeError
      | Some text \<Rightarrow>
          (case search_stats text of
             None \<Rightarrow> Inl AttributeError
           | Some g \<Rightarrow>
               (case json_loads E (g @ ''}'') of
                  None \<Rightarrow> Inl JSONDecodeError
                | Some j \<Rightarrow> Inr j)))"

definition get_author_metadata_try :: "env \<Rightarrow> json \<Rightarrow> world \<Rightarrow> (exn + json) \<times> world" where
  "get_author_metadata_try E author_unique_id w =
     (case get_request_data_async E (ProfileReq author_unique_id) w of
        (Inl e, w1) \<Rightarrow> (Inl e, w1)
      | (Inr text, w1) \<Rightarrow> (parse_author_stats E text, w1))"

definition get_author_metadata :: "env \<Rightarrow> json \<Rightarrow> world \<Rightarrow> (exn + json) \<times> world" where
  "get_author_metadata E author_unique_id w =
     (case get_author_metadata_try E author_unique_id w of
        (Inl e, w1) \<Rightarrow> (Inr (JObj []), w1 @ [Log (AuthorMetadataError e)])
      | (Inr author_stats, w1) \<Rightarrow> (Inr author_stats, w1))"

subsection \<open>Replies\<close>

text \<open>\<^verbatim>\<open>str(n)\<close> for an integer.\<close>

fun digits :: "nat \<Rightarrow> string" where
  "digits n = (if n < 10 then [''0123456789'' ! n] else digits (n div 10) @ [''0123456789'' ! (n mod 10)])"

definition py_str_int :: "int \<Rightarrow> string" where
  "py_str_int n = (if n < 0 then CHR ''-'' # digits (nat (- n)) else digits (nat n))"

text \<open>The list comprehension of \<^verbatim>\<open>fetch_comment_replies\<close>:
  \<^verbatim>\<open>{**comment, 'is_author_reply': comment['user']['unique_id'] == unique_id}\<close> for each
  element, stopping at the first that raises.\<close>

fun mark_author_replies :: "json list \<Rightarrow> json \<Rightarrow> exn + json list" where
  "mark_author_replies [] unique_id = Inr []"
| "mark_author_replies (comment # rest) unique_id =
     (case comment of
        JObj d \<Rightarrow>
          bindE (py_subscript comment ''user'')
            (\<lambda>u. bindE (py_subscript u ''unique_id'')
              (\<lambda>a. bindE (mark_author_replies rest unique_id)
                (\<lambda>rs. Inr (JObj (dict_set d ''is_author_reply'' (JBool (py_eq a unique_id))) # rs))))
      | _ \<Rightarrow> Inl TypeError)"

definition fetch_comment_replies ::
  "env \<Rightarrow> json \<Rightarrow> json \<Rightarrow> string \<Rightarrow> json \<Rightarrow> world \<Rightarrow> (exn + json list \<times> json) \<times> world" where
  "fetch_comment_replies E comment_id video_id cursor unique_id w =
     (case get_request_data_async E (ReplyReq comment_id video_id cursor) w of
        (Inl e, w1) \<Rightarrow> (Inl e, w1)
      | (Inr data, w1) \<Rightarrow>
          (bindE (py_json_loads E data)
             (\<lambda>reply_data. bindE (py_get reply_data ''comments'' (JList []))
               (\<lambda>cv. bindE (py_iter cv)
                 (\<lambda>cs. bindE (mark_author_replies cs unique_id)
                   (\<lambda>processed_replies. bindE (py_get reply_data ''cursor'' (JStr []))
                     (\<lambda>cur. Inr (processed_replies, cur)))))),
           w1))"

text \<open>\<^verbatim>\<open>cursor += 1\<close> on what the fetch returned: an integer (or a boolean) is incremented,
  anything else raises \<^verbatim>\<open>TypeError\<close>.\<close>

definition py_add_one :: "json \<Rightarrow> exn + int" where
  "py_add_one v = (case as_int v of None \<Rightarrow> Inl TypeError | Some n \<Rightarrow> Inr (n + 1))"

text \<open>The \<^verbatim>\<open>while True\<close> loop of \<^verbatim>\<open>extract_comment_replies\<close>. The loop has no bound of
  its own: the first argument counts the iterations allowed, and \<open>None\<close> says that the
  loop has not returned within them.\<close>

fun reply_pages ::
  "env \<Rightarrow> nat \<Rightarrow> json \<Rightarrow> json \<Rightarrow> json \<Rightarrow> int \<Rightarrow> json list \<Rightarrow> world \<Rightarrow> ((exn + json list) \<times> world) option" where
  "reply_pages E 0 comment_id video_id unique_id cursor replies w = None"
| "reply_pages E (Suc n) comment_id video_id unique_id cursor replies w =
     (case fetch_comment_replies E comment_id video_id (py_str_int cursor) unique_id w of
        (Inl e, w1) \<Rightarrow> Some (Inl e, w1)
      | (Inr (new_replies, cur), w1) \<Rightarrow>
          if new_replies = [] then Some (Inr replies, w1)
          else (case py_add_one cur of
                  Inl e \<Rightarrow> Some (Inl e, w1)
                | Inr cursor' \<Rightarrow>
                    reply_pages E n comment_id video_id unique_id cursor' (replies @ new_replies) w1))"

text \<open>\<^verbatim>\<open>reply_count <= 4\<close>: raises on a value that is not a number.\<close>

definition py_le_int :: "json \<Rightarrow> int \<Rightarrow> exn + bool" where
  "py_le_int v k = (case as_int v of None \<Rightarrow> Inl TypeError | Some n \<Rightarrow> Inr (n \<le> k))"

definition extract_comment_replies ::
  "env \<Rightarrow> nat \<Rightarrow> json \<Rightarrow> json \<Rightarrow> world \<Rightarrow> ((exn + json) \<times> world) option" where
  "extract_comment_replies E fuel comment unique_id w =
     (case bindE (py_get comment ''cid'' (JStr []))
             (\<lambda>comment_id. bindE (py_get comment ''aweme_id'' (JStr []))
               (\<lambda>video_id. bindE (py_get comment ''reply_comment_total'' (JInt 0))
                 (\<lambda>reply_count. bindE (py_le_int reply_count 4)
                   (\<lambda>few. Inr (comment_id, video_id, few))))) of
        Inl e \<Rightarrow> Some (Inl e, w)
      | Inr (comment_id, video_id, few) \<Rightarrow>
          if few then Some (py_get comment ''reply_comment'' (JList []), w)
          else (case reply_pages E fuel comment_id video_id unique_id 0 [] w of
                  None \<Rightarrow> None
                | Some (Inl e, w1) \<Rightarrow> Some (Inl e, w1)
                | Some (Inr replies, w1) \<Rightarrow> Some (Inr (JList replies), w1)))"

subsection \<open>Comments\<close>

text \<open>The \<^verbatim>\<open>for\<close> loop of \<^verbatim>\<open>extract_comment_batch\<close>: the comment is marked, its replies
  are fetched, and it joins the batch.\<close>

fun process_comments ::
  "env \<Rightarrow> nat \<Rightarrow> json list \<Rightarrow> json \<Rightarrow> world \<Rightarrow> ((exn + json list) \<times> world) option" where
  "process_comments E fuel [] unique_id w = Some (Inr [], w)"
| "process_comments E fuel (comment # rest) unique_id w =
     (case bindE (py_subscript comment ''user'') (\<lambda>u. py_subscript u ''unique_id'') of
        Inl e \<Rightarrow> Some (Inl e, w)
      | Inr a \<Rightarrow>
          (case comment of
             JObj d \<Rightarrow>
               (let d1 = dict_set d ''is_author_reply'' (JBool (py_eq a unique_id)) in
                case extract_comment_replies E fuel (JObj d1) unique_id w of
                  None \<Rightarrow> None
                | Some (Inl e, w1) \<Rightarrow> Some (Inl e, w1)
                | Some (Inr replies, w1) \<Rightarrow>
                    (case process_comments E fuel rest unique_id w1 of
                       None \<Rightarrow> None
                     | Some (Inl e, w2) \<Rightarrow> Some (Inl e, w2)
                     | Some (Inr processed, w2) \<Rightarrow>
                         Some (Inr (JObj (dict_set d1 ''replies'' replies) # processed), w2)))
           | _ \<Rightarrow> Some (Inl TypeError, w)))"

definition extract_comment_batch ::
  "env \<Rightarrow> nat \<Rightarrow> json \<Rightarrow> int \<Rightarrow> int \<Rightarrow> json \<Rightarrow> world \<Rightarrow> ((exn + json list) \<times> world) option" where
  "extract_comment_batch E fuel video_id cursor limit unique_id w =
     (case get_request_data_async E (CommentReq video_id cursor limit) w of
        (Inl e, w1) \<Rightarrow> Some (Inl e, w1)
      | (Inr data, w1) \<Rightarrow>
          (case bindE (py_json_loads E data)
                  (\<lambda>comment_data. bindE (py_get comment_data ''comments'' (JList [])) py_iter) of
             Inl e \<Rightarrow> Some (Inl e, w1)
           | Inr cs \<Rightarrow> process_comments E fuel cs unique_id w1))"

text \<open>The \<^verbatim>\<open>while True\<close> loop of \<^verbatim>\<open>extract_comments\<close>, with the same counting of
  iterations: an exception ends the loop with what was collected before.\<close>

fun comment_pages ::
  "env \<Rightarrow> nat \<Rightarrow> json \<Rightarrow> json \<Rightarrow> int \<Rightarrow> int \<Rightarrow> json list \<Rightarrow> world \<Rightarrow> ((exn + json list) \<times> world) option" where
  "comment_pages E 0 video_id unique_id cursor limit total_comments w = None"
| "comment_pages E (Suc n) video_id unique_id cursor limit total_comments w =
     (case extract_comment_batch E n video_id cursor limit unique_id w of
        None \<Rightarrow> None
      | Some (Inl e, w1) \<Rightarrow> Some (Inr total_comments, w1 @ [Log (CommentExtractionError e)])
      | Some (Inr cs, w1) \<Rightarrow>
          if cs = [] then Some (Inr total_comments, w1)
          else if 100 \<le> length (total_comments @ cs) then Some (Inr (total_comments @ cs), w1)
          else comment_pages E n video_id unique_id (cursor + limit) limit (total_comments @ cs) w1)"

definition extract_comments ::
  "env \<Rightarrow> nat \<Rightarrow> json \<Rightarrow> json \<Rightarrow> world \<Rightarrow> ((exn + json list) \<times> world) option" where
  "extract_comments E fuel video_id unique_id w = comment_pages E fuel video_id unique_id 0 20 [] w"


subsection \<open>Saving a record\<close>

text \<open>\<^verbatim>\<open>push_data_to_api\<close> drops what \<^verbatim>\<open>input_data_to_api\<close> returns.\<close>

definition push_data_to_api :: "env \<Rightarrow> profile_form \<Rightarrow> world \<Rightarrow> (exn + unit) \<times> world" where
  "push_data_to_api E json_data w =
     (case input_data_to_api E json_data w of
        (Inl e, w1) \<Rightarrow> (Inl e, w1)
      | (Inr r, w1) \<Rightarrow> (Inr (), w1))"

definition save_video_sync_try :: "env \<Rightarrow> processed_item \<Rightarrow> world \<Rightarrow> (exn + unit) \<times> world" where
  "save_video_sync_try E item w =
     (case fill_profile_data E item of
        Inl e \<Rightarrow> (Inl e, w)
      | Inr json_data \<Rightarrow>
          (case push_data_to_api E json_data w of
             (Inl e, w1) \<Rightarrow> (Inl e, w1)
           | (Inr u, w1) \<Rightarrow> (Inr (), w1 @ [Log (SavedSuccessfully (item_id item))])))"

text \<open>\<^verbatim>\<open>_save_video_sync\<close>, which \<^verbatim>\<open>save_video_data\<close> awaits.\<close>

definition save_video_sync :: "env \<Rightarrow> processed_item \<Rightarrow> world \<Rightarrow> (exn + unit) \<times> world" where
  "save_video_sync E item w =
     (case save_video_sync_try E item w of
        (Inl e, w1) \<Rightarrow> (Inr (), w1 @ [Log (SaveError e)])
      | (Inr u, w1) \<Rightarrow> (Inr (), w1))"

definition save_video_data :: "env \<Rightarrow> processed_item \<Rightarrow> world \<Rightarrow> (exn + unit) \<times> world" where
  "save_video_data E item w = save_video_sync E item w"

subsection \<open>process\_video\_item\<close>

definition item_stat :: "json \<Rightarrow> string \<Rightarrow> exn + json" where
  "item_stat item k = bindE (py_subscript item ''stats'') (\<lambda>s. py_subscript s k)"

text \<open>The keyword arguments are evaluated in the order they are written.\<close>

definition item_engagement_rate :: "json \<Rightarrow> exn + pynum" where
  "item_engagement_rate item =
     bindE (item_stat item ''diggCount'')
       (\<lambda>likes. bindE (item_stat item ''shareCount'')
         (\<lambda>shares. bindE (item_stat item ''playCount'')
           (\<lambda>views. bindE (item_stat item ''commentCount'')
             (\<lambda>comments. calculate_engagement_rate_json likes comments shares views))))"

text \<open>The dictionary display that builds \<^verbatim>\<open>processed_item\<close>: its values are evaluated
  in order, and \<^verbatim>\<open>{**item['author'], **author_stats}\<close> needs two dictionaries.\<close>

definition build_processed_item :: "json \<Rightarrow> json \<Rightarrow> pynum \<Rightarrow> exn + processed_item" where
  "build_processed_item item author_stats rate =
     bindE (py_subscript item ''author'')
       (\<lambda>a. case (a, author_stats) of
          (JObj ad, JObj sd) \<Rightarrow>
            bindE (py_subscript item ''video'')
              (\<lambda>v. bindE (py_subscript item ''desc'')
                (\<lambda>d. bindE (py_subscript item ''id'')
                  (\<lambda>i. bindE (py_subscript item ''createTime'')
                    (\<lambda>ct. bindE (py_get item ''textExtra'' (JList []))
                      (\<lambda>h. bindE (py_subscript item ''stats'')
                        (\<lambda>st. Inr \<lparr>
                           author = dict_merge ad sd,
                           video = v,
                           description = d,
                           item_id = i,
                           create_time = ct,
                           hashtags = h,
                           engagement_rate = rate,
                           stats = st,
                           comments = None \<rparr>))))))
        | _ \<Rightarrow> Inl TypeError)"

text \<open>The body of the \<^verbatim>\<open>try\<close> of \<^verbatim>\<open>process_video_item\<close>.\<close>

definition process_video_item_try :: "env \<Rightarrow> nat \<Rightarrow> json \<Rightarrow> world \<Rightarrow> ((exn + unit) \<times> world) option" where
  "process_video_item_try E fuel item w =
     (case bindE (item_engagement_rate item)
             (\<lambda>rate. bindE (py_subscript item ''author'')
               (\<lambda>a. bindE (py_get a ''uniqueId'' JNull)
                 (\<lambda>uid. Inr (rate, uid)))) of
        Inl e \<Rightarrow> Some (Inl e, w)
      | Inr (rate, author_unique_id) \<Rightarrow>
          (case get_author_metadata E author_unique_id w of
             (Inl e, w1) \<Rightarrow> Some (Inl e, w1)
           | (Inr author_stats, w1) \<Rightarrow>
               (case bindE (build_processed_item item author_stats rate)
                       (\<lambda>processed. bindE (py_subscript item ''id'')
                         (\<lambda>video_id. bindE (py_subscript item ''author'')
                           (\<lambda>a. bindE (py_subscript a ''uniqueId'')
                             (\<lambda>unique_id. Inr (processed, video_id, unique_id))))) of
                  Inl e \<Rightarrow> Some (Inl e, w1)
                | Inr (processed, video_id, unique_id) \<Rightarrow>
                    (case extract_comments E fuel video_id unique_id w1 of
                       None \<Rightarrow> None
                     | Some (Inl e, w2) \<Rightarrow> Some (Inl e, w2)
                     | Some (Inr cs, w2) \<Rightarrow>
                         Some (save_video_data E (processed\<lparr>comments := Some cs\<rparr>) w2)))))"

definition process_video_item :: "env \<Rightarrow> nat \<Rightarrow> json \<Rightarrow> world \<Rightarrow> ((exn + unit) \<times> world) option" where
  "process_video_item E fuel item w =
     (case process_video_item_try E fuel item w of
        None \<Rightarrow> None
      | Some (Inl e, w1) \<Rightarrow> Some (Inr (), w1 @ [Log (VideoProcessingError e)])
      | Some (Inr u, w1) \<Rightarrow> Some (Inr (), w1))"

subsection \<open>extract\_influencers\<close>

text \<open>The fields of the scraper that the search loop reads and writes.\<close>

record scraper =
  kw :: string
  total_data :: "json list"
  offset :: int
  limit :: int
  max_influencers :: int

definition init_scraper :: "string \<Rightarrow> int \<Rightarrow> scraper" where
  "init_scraper keyword max_n =
     \<lparr> kw = keyword, total_data = [], offset = 0, limit = 20, max_influencers = max_n \<rparr>"

text \<open>The fetch and parse step of one search page: the request, \<^verbatim>\<open>json.loads\<close>,
  \<^verbatim>\<open>data_list['item_list']\<close> and the iteration that makes one task per item.\<close>

definition search_page :: "env \<Rightarrow> scraper \<Rightarrow> world \<Rightarrow> (exn + json list) \<times> world" where
  "search_page E s w =
     (case get_request_data_async E (SearchReq (kw s) (offset s) (limit s)) w of
        (Inl e, w1) \<Rightarrow> (Inl e, w1)
      | (Inr data, w1) \<Rightarrow>
          (bindE (py_json_loads E data)
             (\<lambda>data_list. bindE (py_subscript data_list ''item_list'') py_iter),
           w1))"

text \<open>\<^verbatim>\<open>asyncio.gather(*tasks)\<close>: the tasks of one page, here run one after the other in
  the order of the page; an exception of a task would leave \<^verbatim>\<open>gather\<close>.\<close>

fun gather :: "env \<Rightarrow> nat \<Rightarrow> json list \<Rightarrow> world \<Rightarrow> ((exn + unit) \<times> world) option" where
  "gather E fuel [] w = Some (Inr (), w)"
| "gather E fuel (item # items) w =
     (case process_video_item E fuel item w of
        None \<Rightarrow> None
      | Some (Inl e, w1) \<Rightarrow> Some (Inl e, w1)
      | Some (Inr u, w1) \<Rightarrow> gather E fuel items w1)"

text \<open>The \<^verbatim>\<open>while\<close> loop of \<^verbatim>\<open>extract_influencers\<close> and its \<^verbatim>\<open>return self.total_data\<close>;
  the result is the returned list, the scraper and the world.\<close>

fun extract_influencers ::
  "env \<Rightarrow> nat \<Rightarrow> scraper \<Rightarrow> world \<Rightarrow> (json list \<times> scraper \<times> world) option" where
  "extract_influencers E 0 s w =
     (if int (length (total_data s)) < max_influencers s then None
      else Some (total_data s, s, w))"
| "extract_influencers E (Suc n) s w =
     (if int (length (total_data s)) < max_influencers s
      then (case search_page E s w of
              (Inl e, w1) \<Rightarrow> Some (total_data s, s, w1 @ [Log (DataExtractionError e)])
            | (Inr items, w1) \<Rightarrow>
                (case gather E n items w1 of
                   None \<Rightarrow> None
                 | Some (Inl e, w2) \<Rightarrow> Some (total_data s, s, w2 @ [Log (DataExtractionError e)])
                 | Some (Inr u, w2) \<Rightarrow>
                     if max_influencers s \<le> int (length (total_data s)) then Some (total_data s, s, w2)
                     else extract_influencers E n (s\<lparr>offset := offset s + limit s\<rparr>) w2))
      else Some (total_data s, s, w))"

section \<open>Observations on a run\<close>

text \<open>The forms that were posted, in order.\<close>

definition posts :: "world \<Rightarrow> profile_form list" where
  "posts w = concat (map (\<lambda>ev. case ev of Post f \<Rightarrow> [f] | _ \<Rightarrow> []) w)"

text \<open>What a call of \<^verbatim>\<open>_save_video_sync\<close> leaves in the world: its POST and its closing
  log line, one of which every call writes. A world without such an event is one in which
  no record was handed over for saving.\<close>

fun is_persister_event :: "event \<Rightarrow> bool" where
  "is_persister_event (Post f) = True"
| "is_persister_event (Log (SavedSuccessfully i)) = True"
| "is_persister_event (Log (SaveError e)) = True"
| "is_persister_event ev = False"

definition persister_events :: "world \<Rightarrow> event list" where
  "persister_events w = filter is_persister_event w"

text \<open>The comments of a decoded comment page, as \<^verbatim>\<open>extract_comment_batch\<close> reads them.\<close>

definition page_comments :: "json \<Rightarrow> exn + json list" where
  "page_comments j = bindE (py_get j ''comments'' (JList [])) py_iter"

text \<open>The two ways the profile request of \<^verbatim>\<open>get_author_metadata\<close> fails: the fetch gives
  no body (another status than 200, or an exception), or the body has no statistics that
  decode.\<close>

definition profile_fetch_fails :: "env \<Rightarrow> json \<Rightarrow> world \<Rightarrow> bool" where
  "profile_fetch_fails E uid w =
     (case http_get E w (ProfileReq uid) of Status code body \<Rightarrow> code \<noteq> 200 | _ \<Rightarrow> True)"

definition profile_parse_fails :: "env \<Rightarrow> json \<Rightarrow> world \<Rightarrow> bool" where
  "profile_parse_fails E uid w =
     (case http_get E w (ProfileReq uid) of
        Status code body \<Rightarrow>
          code = 200 \<and>
          (case search_stats body of None \<Rightarrow> True | Some g \<Rightarrow> json_loads E (g @ ''}'') = None)
      | _ \<Rightarrow> False)"

text \<open>The author of a comment or reply, \<^verbatim>\<open>comment['user']['unique_id']\<close>, and what it means
  for the comment to carry the right mark under a video of \<open>unique_id\<close>.\<close>

definition comment_author :: "json \<Rightarrow> exn + json" where
  "comment_author c = bindE (py_subscript c ''user'') (\<lambda>u. py_subscript u ''unique_id'')"

definition marked :: "json \<Rightarrow> json \<Rightarrow> bool" where
  "marked unique_id c =
     (case comment_author c of
        Inl e \<Rightarrow> False
      | Inr a \<Rightarrow> py_subscript c ''is_author_reply'' = Inr (JBool (py_eq a unique_id)))"

text \<open>The two stretches of the \<^verbatim>\<open>try\<close> of \<^verbatim>\<open>process_video_item\<close> that run no request:
  before the profile request, the engagement rate and the argument
  \<^verbatim>\<open>item['author'].get('uniqueId')\<close>; after it, the dictionary display of the record and
  the arguments \<^verbatim>\<open>item['id']\<close> and \<^verbatim>\<open>item['author']['uniqueId']\<close> of
  \<^verbatim>\<open>extract_comments\<close>.\<close>

definition item_prelude :: "json \<Rightarrow> exn + pynum \<times> json" where
  "item_prelude item =
     bindE (item_engagement_rate item)
       (\<lambda>rate. bindE (py_subscript item ''author'')
         (\<lambda>a. bindE (py_get a ''uniqueId'' JNull)
           (\<lambda>uid. Inr (rate, uid))))"

definition item_assembly :: "json \<Rightarrow> json \<Rightarrow> pynum \<Rightarrow> exn + processed_item \<times> json \<times> json" where
  "item_assembly item author_stats rate =
     bindE (build_processed_item item author_stats rate)
       (\<lambda>processed. bindE (py_subscript item ''id'')
         (\<lambda>video_id. bindE (py_subscript item ''author'')
           (\<lambda>a. bindE (py_subscript a ''uniqueId'')
             (\<lambda>unique_id. Inr (processed, video_id, unique_id)))))"

section \<open>Example data\<close>

text \<open>A clock that knows one time stamp.\<close>

definition demo_strftime :: "json \<Rightarrow> exn + string" where
  "demo_strftime t = (if t = JInt 1700000000 then Inr ''2023-11-14 22:13:20'' else Inl TimestampError)"

text \<open>A server on which every GET fails with the exception the helper catches, and every
  POST is answered with the given status.\<close>

definition env_post_status :: "int \<Rightarrow> env" where
  "env_post_status code =
     \<lparr> http_get = (\<lambda>w req. CaughtError),
       http_post = (\<lambda>w f. Status code []),
       json_loads = (\<lambda>t. None),
       strftime_timestamp = demo_strftime \<rparr>"

definition demo_form :: profile_form where
  "demo_form =
     \<lparr> form_name = JStr ''Alice'', username = JStr ''alice'',
       email = [Fmt (JStr ''alice''), Lit ''@gmail.com''],
       bio = JStr [], profile_url = [Lit ''https://www.tiktok.com/'', Fmt (JStr ''alice'')],
       date_last_post = ''2023-11-14 22:13:20'', follower_count = JStr [],
       form_engagement_rate = PInt 0 \<rparr>"

text \<open>A search item of the creator \<^verbatim>\<open>alice\<close>: 10 likes, 5 comments, 5 shares, 100 views.\<close>

definition demo_item :: json where
  "demo_item =
     JObj [(''id'', JStr ''7''), (''desc'', JStr ''d''), (''createTime'', JInt 1700000000),
           (''video'', JObj []),
           (''author'', JObj [(''uniqueId'', JStr ''alice''), (''nickname'', JStr ''Alice'')]),
           (''stats'', JObj [(''diggCount'', JInt 10), (''shareCount'', JInt 5),
                             (''playCount'', JInt 100), (''commentCount'', JInt 5)])]"

text \<open>A comment of \<^verbatim>\<open>bob\<close> without replies, as the server sends it and as
  \<^verbatim>\<open>extract_comment_batch\<close> returns it under a video of \<^verbatim>\<open>alice\<close>.\<close>

definition comment_bob :: json where
  "comment_bob = JObj [(''user'', JObj [(''unique_id'', JStr ''bob'')])]"

definition comment_bob_text :: string where
  "comment_bob_text = ''{\"user\": {\"unique_id\": \"bob\"}}''"

definition comment_bob_done :: json where
  "comment_bob_done =
     JObj [(''user'', JObj [(''unique_id'', JStr ''bob'')]),
           (''is_author_reply'', JBool False),
           (''replies'', JList [])]"

text \<open>A server whose comment pages hold 19 comments each, one short of the 20 asked
  for.\<close>

definition page19 :: json where
  "page19 = JObj [(''comments'', JList (replicate 19 comment_bob))]"

definition page19_text :: string where
  "page19_text =
     ''{\"comments\": ['' @ concat (replicate 18 (comment_bob_text @ '', '')) @ comment_bob_text @ '']}''"

definition env_pages19 :: env where
  "env_pages19 =
     \<lparr> http_get = (\<lambda>w req. case req of CommentReq v c l \<Rightarrow> Status 200 page19_text | _ \<Rightarrow> Status 404 []),
       http_post = (\<lambda>w f. Status 200 []),
       json_loads = (\<lambda>t. if t = page19_text then Some page19 else None),
       strftime_timestamp = demo_strftime \<rparr>"


text \<open>The form of the example item when its profile request has failed.\<close>

definition demo_item_form :: profile_form where
  "demo_item_form =
     \<lparr> form_name = JStr ''Alice'', username = JStr ''alice'',
       email = [Fmt (JStr ''alice''), Lit ''@gmail.com''],
       bio = JStr [], profile_url = [Lit ''https://www.tiktok.com/'', Fmt (JStr ''alice'')],
       date_last_post = ''2023-11-14 22:13:20'', follower_count = JStr [],
       form_engagement_rate = PFloat (Finite 5629499534213120 (- 48)) \<rparr>"


text \<open>A search whose first page is empty, whose second page holds the example item and
  whose later pages are refused; profile and comment requests are refused too.\<close>

definition empty_search_text :: string where
  "empty_search_text = ''{\"item_list\": []}''"

definition empty_search :: json where
  "empty_search = JObj [(''item_list'', JList [])]"

definition one_item_search_text :: string where
  "one_item_search_text =
     ''{\"item_list\": [{\"id\": \"7\", \"desc\": \"d\", \"createTime\": 1700000000, \"video\": {}, '' @
     ''\"author\": {\"uniqueId\": \"alice\", \"nickname\": \"Alice\"}, '' @
     ''\"stats\": {\"diggCount\": 10, \"shareCount\": 5, \"playCount\": 100, \"commentCount\": 5}}]}''"

definition one_item_search :: json where
  "one_item_search = JObj [(''item_list'', JList [demo_item])]"

definition env_search :: env where
  "env_search =
     \<lparr> http_get = (\<lambda>w req. case req of
          SearchReq k off l \<Rightarrow>
            (if off = 0 then Status 200 empty_search_text
             else if off = 20 then Status 200 one_item_search_text
             else Status 404 [])
        | _ \<Rightarrow> Status 404 []),
       http_post = (\<lambda>w f. Status 200 []),
       json_loads = (\<lambda>t. if t = empty_search_text then Some empty_search
                          else if t = one_item_search_text then Some one_item_search else None),
       strftime_timestamp = demo_strftime \<rparr>"

text \<open>A comment thread under a video of \<^verbatim>\<open>alice\<close>: replies of \<^verbatim>\<open>alice\<close> and
  \<^verbatim>\<open>carol\<close>; a comment with three replies, two of them inline; the same comment with five
  replies; a first reply page with a numeric cursor, one with a textual cursor, and an
  empty page.\<close>

definition reply_alice :: json where
  "reply_alice = JObj [(''user'', JObj [(''unique_id'', JStr ''alice'')])]"

definition reply_carol :: json where
  "reply_carol = JObj [(''user'', JObj [(''unique_id'', JStr ''carol'')])]"

definition reply_alice_marked :: json where
  "reply_alice_marked =
     JObj [(''user'', JObj [(''unique_id'', JStr ''alice'')]), (''is_author_reply'', JBool True)]"

definition reply_page_text :: string where
  "reply_page_text = ''{\"comments\": [{\"user\": {\"unique_id\": \"alice\"}}], \"cursor\": 5}''"

definition reply_page :: json where
  "reply_page = JObj [(''comments'', JList [reply_alice]), (''cursor'', JInt 5)]"

definition reply_page_token_text :: string where
  "reply_page_token_text = ''{\"comments\": [{\"user\": {\"unique_id\": \"alice\"}}], \"cursor\": \"next\"}''"

definition reply_page_token :: json where
  "reply_page_token = JObj [(''comments'', JList [reply_alice]), (''cursor'', JStr ''next'')]"

definition empty_page_text :: string where
  "empty_page_text = ''{\"comments\": []}''"

definition empty_page :: json where
  "empty_page = JObj [(''comments'', JList [])]"

definition comment_few :: "(string \<times> json) list" where
  "comment_few =
     [(''cid'', JStr ''c1''), (''aweme_id'', JStr ''7''), (''user'', JObj [(''unique_id'', JStr ''bob'')]),
      (''reply_comment_total'', JInt 3),
      (''reply_comment'', JList [reply_alice, reply_carol])]"

definition comment_few_page_text :: string where
  "comment_few_page_text =
     ''{\"comments\": [{\"cid\": \"c1\", \"aweme_id\": \"7\", \"user\": {\"unique_id\": \"bob\"}, '' @
     ''\"reply_comment_total\": 3, \"reply_comment\": [{\"user\": {\"unique_id\": \"alice\"}}, '' @
     ''{\"user\": {\"unique_id\": \"carol\"}}]}]}''"

definition comment_few_page :: json where
  "comment_few_page = JObj [(''comments'', JList [JObj comment_few])]"

definition comment_many :: "(string \<times> json) list" where
  "comment_many =
     [(''cid'', JStr ''c1''), (''aweme_id'', JStr ''7''), (''user'', JObj [(''unique_id'', JStr ''bob'')]),
      (''reply_comment_total'', JInt 5),
      (''reply_comment'', JList [reply_carol])]"

text \<open>The server of the thread: the first comment page holds the comment with three
  replies, the first reply page is the given one, every later page is empty.\<close>

definition env_thread :: "string \<Rightarrow> env" where
  "env_thread first_replies =
     \<lparr> http_get = (\<lambda>w req. case req of
          ReplyReq cid vid cur \<Rightarrow> Status 200 (if cur = ''0'' then first_replies else empty_page_text)
        | CommentReq vid cur l \<Rightarrow> Status 200 (if cur = 0 then comment_few_page_text else empty_page_text)
        | _ \<Rightarrow> Status 404 []),
       http_post = (\<lambda>w f. Status 200 []),
       json_loads = (\<lambda>t. if t = reply_page_text then Some reply_page
                          else if t = reply_page_token_text then Some reply_page_token
                          else if t = comment_few_page_text then Some comment_few_page
                          else if t = empty_page_text then Some empty_page else None),
       strftime_timestamp = demo_strftime \<rparr>"

section \<open>What the steps leave untouched\<close>

lemma persister_events_append [simp]:
  "persister_events (a @ b) = persister_events a @ persister_events b"
  by (simp add: persister_events_def)

lemma persister_events_simps [simp]:
  "persister_events [] = []"
  "persister_events (Get r # w) = persister_events w"
  "persister_events (Log ReturningData # w) = persister_events w"
  "persister_events (Log (UnableStatus c) # w) = persister_events w"
  "persister_events (Log UnableError # w) = persister_events w"
  "persister_events (Log (AuthorMetadataError e) # w) = persister_events w"
  "persister_events (Log (CommentExtractionError e) # w) = persister_events w"
  "persister_events (Log (VideoProcessingError e) # w) = persister_events w"
  "persister_events (Log (DataExtractionError e) # w) = persister_events w"
  by (simp_all add: persister_events_def)

lemma frame_get_request:
  "get_request_data_async E req w = (r, w') \<Longrightarrow> persister_events w' = persister_events w"
  by (auto simp: get_request_data_async_def split: http_result.splits if_splits)

lemma frame_get_author_metadata:
  "get_author_metadata E uid w = (r, w') \<Longrightarrow> persister_events w' = persister_events w"
  by (auto simp: get_author_metadata_def get_author_metadata_try_def
      split: prod.splits sum.splits dest: frame_get_request)

lemma frame_fetch_comment_replies:
  "fetch_comment_replies E cid vid cur uid w = (r, w') \<Longrightarrow> persister_events w' = persister_events w"
  by (auto simp: fetch_comment_replies_def split: prod.splits sum.splits dest: frame_get_request)

lemma frame_reply_pages:
  "reply_pages E fuel cid vid uid cursor replies w = Some (r, w') \<Longrightarrow>
     persister_events w' = persister_events w"
proof (induction fuel arbitrary: cursor replies w)
  case 0
  then show ?case by simp
next
  case (Suc n)
  obtain fr w1 where f: "fetch_comment_replies E cid vid (py_str_int cursor) uid w = (fr, w1)"
    by (cases "fetch_comment_replies E cid vid (py_str_int cursor) uid w")
  have w1: "persister_events w1 = persister_events w"
    using f by (rule frame_fetch_comment_replies)
  show ?case
  proof (cases fr)
    case (Inl e)
    with Suc.prems f w1 show ?thesis by simp
  next
    case (Inr p)
    obtain new cur where p: "p = (new, cur)" by (cases p)
    show ?thesis
    proof (cases "new = []")
      case True
      with Suc.prems f Inr p w1 show ?thesis by simp
    next
      case False
      show ?thesis
      proof (cases "py_add_one cur")
        case (Inl e)
        with Suc.prems f \<open>fr = Inr p\<close> p False w1 show ?thesis by simp
      next
        case (Inr c)
        with Suc.prems f \<open>fr = Inr p\<close> p False
        have "reply_pages E n cid vid uid c (replies @ new) w1 = Some (r, w')" by simp
        from Suc.IH[OF this] w1 show ?thesis by simp
      qed
    qed
  qed
qed

lemma frame_extract_comment_replies:
  "extract_comment_replies E fuel comment uid w = Some (r, w') \<Longrightarrow>
     persister_events w' = persister_events w"
  by (auto simp: extract_comment_replies_def split: sum.splits prod.splits if_splits option.splits
      dest: frame_reply_pages)

lemma frame_process_comments:
  "process_comments E fuel cs uid w = Some (r, w') \<Longrightarrow>
     persister_events w' = persister_events w"
proof (induction cs arbitrary: r w w')
  case Nil
  then show ?case by simp
next
  case (Cons c cs)
  from Cons.prems show ?case
    by (auto simp: Let_def split: sum.splits json.splits option.splits prod.splits
        dest!: frame_extract_comment_replies Cons.IH)
qed

lemma frame_extract_comment_batch:
  "extract_comment_batch E fuel vid cursor lm uid w = Some (r, w') \<Longrightarrow>
     persister_events w' = persister_events w"
  by (auto simp: extract_comment_batch_def split: sum.splits prod.splits
      dest!: frame_get_request frame_process_comments)

lemma frame_comment_pages:
  "comment_pages E fuel vid uid cursor lm acc w = Some (r, w') \<Longrightarrow>
     persister_events w' = persister_events w"
proof (induction fuel arbitrary: cursor acc w)
  case 0
  then show ?case by simp
next
  case (Suc n)
  from Suc.prems show ?case
    by (auto split: option.splits sum.splits prod.splits if_splits
        dest!: frame_extract_comment_batch Suc.IH)
qed

lemma frame_extract_comments:
  "extract_comments E fuel vid uid w = Some (r, w') \<Longrightarrow>
     persister_events w' = persister_events w"
  unfolding extract_comments_def by (rule frame_comment_pages)

section \<open>Exceptions that stay inside\<close>

lemma save_video_sync_no_raise: "save_video_sync E item w = (r, w') \<Longrightarrow> r = Inr ()"
  by (auto simp: save_video_sync_def split: prod.splits sum.splits)

lemma process_video_item_try_raise_frame:
  assumes "process_video_item_try E fuel item w = Some (Inl e, w1)"
  shows "persister_events w1 = persister_events w"
  using assms
  by (auto simp: process_video_item_try_def save_video_data_def
      split: sum.splits prod.splits option.splits
      dest!: frame_get_author_metadata frame_extract_comments save_video_sync_no_raise)

lemma process_video_item_no_raise:
  "process_video_item E fuel item w = Some (r, w') \<Longrightarrow> r = Inr ()"
  by (auto simp: process_video_item_def split: option.splits sum.splits prod.splits)

lemma gather_no_raise:
  "gather E fuel items w = Some (r, w') \<Longrightarrow> r = Inr ()"
proof (induction items arbitrary: w)
  case Nil
  then show ?case by simp
next
  case (Cons item items)
  then show ?case
    by (auto split: option.splits sum.splits prod.splits dest: process_video_item_no_raise)
qed

lemma process_video_item_try_steps:
  "process_video_item_try E fuel item w =
     (case item_prelude item of
        Inl e \<Rightarrow> Some (Inl e, w)
      | Inr (rate, uid) \<Rightarrow>
          (case get_author_metadata E uid w of
             (Inl e, w1) \<Rightarrow> Some (Inl e, w1)
           | (Inr author_stats, w1) \<Rightarrow>
               (case item_assembly item author_stats rate of
                  Inl e \<Rightarrow> Some (Inl e, w1)
                | Inr (processed, video_id, unique_id) \<Rightarrow>
                    (case extract_comments E fuel video_id unique_id w1 of
                       None \<Rightarrow> None
                     | Some (Inl e, w2) \<Rightarrow> Some (Inl e, w2)
                     | Some (Inr cs, w2) \<Rightarrow>
                         Some (save_video_data E (processed\<lparr>comments := Some cs\<rparr>) w2)))))"
  unfolding process_video_item_try_def item_prelude_def item_assembly_def by (rule refl)

lemma comment_pages_no_raise:
  "comment_pages E fuel vid uid cursor lm acc w = Some (r, w') \<Longrightarrow> \<exists>cs. r = Inr cs"
proof (induction fuel arbitrary: cursor acc w)
  case 0
  then show ?case by simp
next
  case (Suc n)
  from Suc.prems show ?case
    by (auto split: option.splits sum.splits prod.splits if_splits dest: Suc.IH)
qed

lemma extract_comments_no_raise:
  "extract_comments E fuel vid uid w = Some (r, w') \<Longrightarrow> \<exists>cs. r = Inr cs"
  unfolding extract_comments_def by (rule comment_pages_no_raise)







section \<open>The search loop\<close>

lemma extract_influencers_inv:
  assumes "extract_influencers E fuel s w = Some (res, s', w')"
  shows "res = total_data s \<and> total_data s' = total_data s \<and>
    (int (length (total_data s)) < max_influencers s \<longrightarrow>
      (\<exists>k e w0 w1. s' = s\<lparr>offset := offset s + int k * limit s\<rparr> \<and>
         search_page E s' w0 = (Inl e, w1) \<and> w' = w1 @ [Log (DataExtractionError e)]))"
  using assms
proof (induction fuel arbitrary: s w)
  case 0
  then show ?case by (auto split: if_splits)
next
  case (Suc n)
  show ?case
  proof (cases "int (length (total_data s)) < max_influencers s")
    case False
    with Suc.prems show ?thesis by auto
  next
    case True
    obtain sr w1 where sp: "search_page E s w = (sr, w1)" by (cases "search_page E s w")
    show ?thesis
    proof (cases sr)
      case (Inl e)
      with Suc.prems True sp have "s' = s" "res = total_data s" "w' = w1 @ [Log (DataExtractionError e)]"
        by auto
      moreover have "s = s\<lparr>offset := offset s + int 0 * limit s\<rparr>" by simp
      ultimately show ?thesis using sp Inl
        by metis
    next
      case (Inr items)
      show ?thesis
      proof (cases "gather E n items w1")
        case None
        with Suc.prems True sp Inr show ?thesis by simp
      next
        case (Some g)
        obtain gr w2 where g: "g = (gr, w2)" by (cases g)
        with Some have "gr = Inr ()" by (auto dest: gather_no_raise)
        with Suc.prems True sp Inr Some g
        have rec: "extract_influencers E n (s\<lparr>offset := offset s + limit s\<rparr>) w2 = Some (res, s', w')"
          by simp
        from Suc.IH[OF rec] True
        obtain k e w0 w1' where
          a: "res = total_data s" "total_data s' = total_data s"
          and b: "s' = s\<lparr>offset := offset s + limit s + int k * limit s\<rparr>"
          and c: "search_page E s' w0 = (Inl e, w1')" "w' = w1' @ [Log (DataExtractionError e)]"
          by auto
        have "s' = s\<lparr>offset := offset s + int (Suc k) * limit s\<rparr>"
          using b by (simp add: algebra_simps)
        with a c True show ?thesis by blast
      qed
    qed
  qed
qed

section \<open>The comment loop\<close>

lemma process_comments_length:
  "process_comments E fuel cs uid w = Some (Inr ys, w') \<Longrightarrow> length ys = length cs"
proof (induction cs arbitrary: ys w w')
  case Nil
  then show ?case by simp
next
  case (Cons c cs)
  from Cons.prems show ?case
    by (auto simp: Let_def split: sum.splits json.splits option.splits prod.splits dest!: Cons.IH)
qed

section \<open>The profile request\<close>

lemma dict_merge_empty: "dict_merge a [] = a"
  by (simp add: dict_merge_def)

lemma get_author_metadata_returns: "\<exists>v. fst (get_author_metadata E uid w) = Inr v"
  by (auto simp: get_author_metadata_def split: prod.splits sum.splits)

lemma get_author_metadata_fetch_fails:
  "profile_fetch_fails E uid w \<Longrightarrow> fst (get_author_metadata E uid w) = Inr (JObj [])"
  by (auto simp: profile_fetch_fails_def get_author_metadata_def get_author_metadata_try_def
      get_request_data_async_def parse_author_stats_def split: http_result.splits if_splits)

lemma get_author_metadata_parse_fails:
  "profile_parse_fails E uid w \<Longrightarrow> fst (get_author_metadata E uid w) = Inr (JObj [])"
  by (auto simp: profile_parse_fails_def get_author_metadata_def get_author_metadata_try_def
      get_request_data_async_def parse_author_stats_def split: http_result.splits if_splits option.splits)

lemma build_processed_item_empty_stats:
  "build_processed_item item (JObj []) rate = Inr p \<Longrightarrow>
     py_subscript item ''author'' = Inr (JObj (author p)) \<and> engagement_rate p = rate"
  by (auto simp: build_processed_item_def bindE_def dict_merge_empty split: sum.splits json.splits)

section \<open>The reply loop\<close>

lemma map_of_dict_set: "map_of (dict_set d k v) = (map_of d)(k \<mapsto> v)"
  by (induction d) (auto simp: fun_eq_iff)

lemma reply_pages_first_fetch:
  "reply_pages E fuel cid vid uid cursor replies w = Some (r, w') \<Longrightarrow>
     \<exists>rest. w' = w @ Get (ReplyReq cid vid (py_str_int cursor)) # rest"
proof (induction fuel arbitrary: cursor replies w)
  case 0
  then show ?case by simp
next
  case (Suc n)
  obtain fr w1 where f: "fetch_comment_replies E cid vid (py_str_int cursor) uid w = (fr, w1)"
    by (cases "fetch_comment_replies E cid vid (py_str_int cursor) uid w")
  then obtain r1 where w1: "w1 = w @ Get (ReplyReq cid vid (py_str_int cursor)) # r1"
    by (auto simp: fetch_comment_replies_def get_request_data_async_def
        split: http_result.splits if_splits prod.splits sum.splits)
  show ?case
  proof (cases "\<exists>new cur c. fr = Inr (new, cur) \<and> new \<noteq> [] \<and> py_add_one cur = Inr c")
    case True
    then obtain new cur c where t: "fr = Inr (new, cur)" "new \<noteq> []" "py_add_one cur = Inr c" by blast
    with Suc.prems f have "reply_pages E n cid vid uid c (replies @ new) w1 = Some (r, w')" by simp
    from Suc.IH[OF this] w1 show ?thesis by auto
  next
    case False
    with Suc.prems f have "w' = w1"
      by (auto split: sum.splits prod.splits if_splits)
    with w1 show ?thesis by simp
  qed
qed

lemma fetch_comment_replies_cursor:
  "fetch_comment_replies E cid vid cur_in uid w = (Inr (new, cur), w1) \<Longrightarrow>
     \<exists>body j. http_get E w (ReplyReq cid vid cur_in) = Status 200 body \<and> json_loads E body = Some j \<and>
        py_get j ''cursor'' (JStr []) = Inr cur"
  by (auto simp: fetch_comment_replies_def get_request_data_async_def py_json_loads_def bindE_def
      split: http_result.splits if_splits sum.splits option.splits)


section \<open>The last batch of the comment loop\<close>

lemma ext_get_request:
  "get_request_data_async E req w = (r, w') \<Longrightarrow> \<exists>rest. w' = w @ Get req # rest"
  by (auto simp: get_request_data_async_def split: http_result.splits if_splits)

lemma ext_reply_pages:
  "reply_pages E fuel cid vid uid cursor replies w = Some (r, w') \<Longrightarrow> \<exists>evs. w' = w @ evs"
  by (drule reply_pages_first_fetch) blast

lemma ext_extract_comment_replies:
  "extract_comment_replies E fuel comment uid w = Some (r, w') \<Longrightarrow> \<exists>evs. w' = w @ evs"
  by (auto simp: extract_comment_replies_def split: sum.splits prod.splits if_splits option.splits
      dest!: ext_reply_pages)

lemma ext_process_comments:
  "process_comments E fuel cs uid w = Some (r, w') \<Longrightarrow> \<exists>evs. w' = w @ evs"
proof (induction cs arbitrary: r w w')
  case Nil
  then show ?case by simp
next
  case (Cons c cs)
  from Cons.prems show ?case
    by (auto simp: Let_def split: sum.splits json.splits option.splits prod.splits
        dest!: ext_extract_comment_replies Cons.IH)
qed

lemma extract_comment_batch_page:
  assumes "extract_comment_batch E f vid c lm uid w = Some (Inr batch, w')"
  shows "\<exists>body j xs rest. http_get E w (CommentReq vid c lm) = Status 200 body \<and>
     json_loads E body = Some j \<and> page_comments j = Inr xs \<and> length batch = length xs \<and>
     w' = w @ Get (CommentReq vid c lm) # rest"
proof -
  from assms obtain data w1 xs where
    g: "get_request_data_async E (CommentReq vid c lm) w = (Inr data, w1)"
    and dec: "bindE (py_json_loads E data) (\<lambda>cd. bindE (py_get cd ''comments'' (JList [])) py_iter) = Inr xs"
    and p: "process_comments E f xs uid w1 = Some (Inr batch, w')"
    by (auto simp: extract_comment_batch_def split: prod.splits sum.splits)
  from dec obtain body j where d: "data = Some body" "json_loads E body = Some j" "page_comments j = Inr xs"
    by (auto simp: py_json_loads_def bindE_def page_comments_def split: option.splits sum.splits)
  from g d(1) have h: "http_get E w (CommentReq vid c lm) = Status 200 body"
    by (auto simp: get_request_data_async_def split: http_result.splits if_splits)
  from ext_get_request[OF g] obtain r1 where w1: "w1 = w @ Get (CommentReq vid c lm) # r1" by blast
  from ext_process_comments[OF p] obtain evs where "w' = w1 @ evs" by blast
  with w1 have "w' = w @ Get (CommentReq vid c lm) # (r1 @ evs)" by simp
  with h d process_comments_length[OF p] show ?thesis by blast
qed

lemma ext_extract_comment_batch:
  "extract_comment_batch E f vid c lm uid w = Some (r, w') \<Longrightarrow> \<exists>evs. w' = w @ evs"
  by (auto simp: extract_comment_batch_def split: sum.splits prod.splits
      dest!: ext_get_request ext_process_comments)

lemma comment_pages_last_batch:
  assumes "comment_pages E fuel vid uid cursor lm acc w = Some (r, w')"
    and "length acc < 100"
  shows "\<exists>cs. r = Inr cs \<and>
     (100 \<le> length cs \<longrightarrow>
        (\<exists>prev batch f c evs. cs = prev @ batch \<and> length prev < 100 \<and>
           extract_comment_batch E f vid c lm uid (w @ evs) = Some (Inr batch, w')))"
  using assms
proof (induction fuel arbitrary: cursor acc w)
  case 0
  then show ?case by simp
next
  case (Suc n)
  show ?case
  proof (cases "extract_comment_batch E n vid cursor lm uid w")
    case None
    with Suc.prems show ?thesis by simp
  next
    case (Some a)
    obtain br w1 where a: "a = (br, w1)" by (cases a)
    from ext_extract_comment_batch[OF Some[unfolded a]] obtain ev1 where w1: "w1 = w @ ev1" by blast
    show ?thesis
    proof (cases br)
      case (Inl e)
      with Suc.prems Some a show ?thesis by auto
    next
      case (Inr cs)
      show ?thesis
      proof (cases "cs = []")
        case True
        with Suc.prems Some a Inr show ?thesis by auto
      next
        case False
        show ?thesis
        proof (cases "100 \<le> length (acc @ cs)")
          case True
          with Suc.prems Some a Inr False have r: "r = Inr (acc @ cs)" "w' = w1" by auto
          have "extract_comment_batch E n vid cursor lm uid (w @ []) = Some (Inr cs, w')"
            using Some a Inr r by simp
          with Suc.prems(2) have
            "\<exists>prev batch f c evs. acc @ cs = prev @ batch \<and> length prev < 100 \<and>
               extract_comment_batch E f vid c lm uid (w @ evs) = Some (Inr batch, w')"
            by blast
          with r show ?thesis by blast
        next
          case F: False
          with Suc.prems Some a Inr False
          have rec: "comment_pages E n vid uid (cursor + lm) lm (acc @ cs) w1 = Some (r, w')" by simp
          have "length (acc @ cs) < 100" using F by simp
          from Suc.IH[OF rec this] obtain cs' where
            c: "r = Inr cs'"
            "100 \<le> length cs' \<longrightarrow>
              (\<exists>prev batch f c evs. cs' = prev @ batch \<and> length prev < 100 \<and>
                 extract_comment_batch E f vid c lm uid (w1 @ evs) = Some (Inr batch, w'))"
            by blast
          have "100 \<le> length cs' \<longrightarrow>
              (\<exists>prev batch f c evs. cs' = prev @ batch \<and> length prev < 100 \<and>
                 extract_comment_batch E f vid c lm uid (w @ evs) = Some (Inr batch, w'))"
          proof
            assume "100 \<le> length cs'"
            with c(2) obtain prev batch f c evs where
              "cs' = prev @ batch" "length prev < 100"
              "extract_comment_batch E f vid c lm uid (w1 @ evs) = Some (Inr batch, w')"
              by blast
            then have "cs' = prev @ batch \<and> length prev < 100 \<and>
              extract_comment_batch E f vid c lm uid (w @ (ev1 @ evs)) = Some (Inr batch, w')"
              by (simp add: w1)
            then show "\<exists>prev batch f c evs. cs' = prev @ batch \<and> length prev < 100 \<and>
                 extract_comment_batch E f vid c lm uid (w @ evs) = Some (Inr batch, w')"
              by blast
          qed
          with c(1) show ?thesis by blast
        qed
      qed
    qed
  qed
qed

section \<open>Empty pages\<close>

lemma comment_loop_stops_on_empty_page:
  "extract_comment_batch E n vid cursor lm uid w = Some (Inr [], w1) \<Longrightarrow>
     comment_pages E (Suc n) vid uid cursor lm acc w = Some (Inr acc, w1)"
  by simp

lemma reply_loop_stops_on_empty_page:
  "fetch_comment_replies E cid vid (py_str_int cursor) uid w = (Inr ([], cur), w1) \<Longrightarrow>
     reply_pages E (Suc n) cid vid uid cursor replies w = Some (Inr replies, w1)"
  by simp

section \<open>The mark on comments and fetched replies\<close>

lemma comment_author_dict_set:
  "k \<noteq> ''user'' \<Longrightarrow> comment_author (JObj (dict_set d k v)) = comment_author (JObj d)"
  by (simp add: comment_author_def py_subscript_def map_of_dict_set)

lemma marked_after_mark:
  assumes "comment_author (JObj d) = Inr a"
  shows "marked uid (JObj (dict_set d ''is_author_reply'' (JBool (py_eq a uid))))"
    and "marked uid (JObj (dict_set (dict_set d ''is_author_reply'' (JBool (py_eq a uid))) ''replies'' r))"
  using assms
  by (simp_all add: marked_def comment_author_dict_set) (simp_all add: py_subscript_def map_of_dict_set)

lemma mark_author_replies_marked:
  "mark_author_replies cs uid = Inr rs \<Longrightarrow> list_all (marked uid) rs"
proof (induction cs arbitrary: rs)
  case Nil
  then show ?case by simp
next
  case (Cons c cs)
  from Cons.prems obtain d where d: "c = JObj d"
    by (cases c) simp_all
  from Cons.prems d obtain a rs' where
    a: "comment_author (JObj d) = Inr a" and r: "mark_author_replies cs uid = Inr rs'"
    and rs: "rs = JObj (dict_set d ''is_author_reply'' (JBool (py_eq a uid))) # rs'"
    by (auto simp: bindE_def comment_author_def split: sum.splits)
  from Cons.IH[OF r] marked_after_mark(1)[OF a] rs show ?case by simp
qed

lemma process_comments_marked:
  "process_comments E fuel cs uid w = Some (Inr ys, w') \<Longrightarrow> list_all (marked uid) ys"
proof (induction cs arbitrary: ys w w')
  case Nil
  then show ?case by simp
next
  case (Cons c cs)
  from Cons.prems obtain a where a0: "comment_author c = Inr a"
    by (auto simp: comment_author_def split: sum.splits)
  with Cons.prems obtain d where d: "c = JObj d"
    by (cases c) (simp_all add: comment_author_def)
  from Cons.prems a0 d obtain replies w1 ys' where
    r: "process_comments E fuel cs uid w1 = Some (Inr ys', w')"
    and ys: "ys = JObj (dict_set (dict_set d ''is_author_reply'' (JBool (py_eq a uid))) ''replies'' replies) # ys'"
    by (auto simp: Let_def comment_author_def split: option.splits sum.splits prod.splits)
  from Cons.IH[OF r] marked_after_mark(2)[OF a0[unfolded d]] ys show ?case by simp
qed

section \<open>Rounding\<close>

text \<open>The value of a rounded quotient is within half a unit in the last place of the
  quotient; from there, the engagement rate is within a relative error of \<open>2 ^ - 51\<close> of
  the exact rate.\<close>

lemma pow2_powi: "pow2 p = 2 powi p"
  by (simp add: pow2_def power_int_def field_simps)

lemma pow2_pos [simp]: "0 < pow2 p"
  by (simp add: pow2_powi)

lemma pow2_nonzero [simp]: "pow2 p \<noteq> 0"
  using pow2_pos[of p] by (simp only: less_imp_neq[THEN not_sym] not_False_eq_True)

lemma pow2_abs [simp]: "\<bar>pow2 p\<bar> = pow2 p"
  using pow2_pos[of p] by (simp only: abs_of_pos)

lemma pow2_add: "pow2 (a + b) = pow2 a * pow2 b"
  by (simp add: pow2_powi power_int_add)

lemma pow2_mono: "a \<le> b \<Longrightarrow> pow2 a \<le> pow2 b"
  by (simp add: pow2_powi power_int_increasing)

lemma pow2_strict_mono: "a < b \<Longrightarrow> pow2 a < pow2 b"
  by (simp add: pow2_powi power_int_strict_increasing)

lemma pow2_less_iff: "pow2 a < pow2 b \<longleftrightarrow> a < b"
  by (metis pow2_mono pow2_strict_mono not_less)

lemma pow2_nat: "pow2 (int k) = 2 ^ k"
  by (simp add: pow2_def)

lemma bitlen_pos: "0 < n \<Longrightarrow> bitlen n = Suc (bitlen (n div 2))"
  by (subst bitlen.simps) simp

lemma bitlen_zero: "bitlen 0 = 0"
  by (subst bitlen.simps) simp

declare bitlen.simps [simp del]

lemma bitlen_bounds: "0 < n \<Longrightarrow> 2 ^ (bitlen n - 1) \<le> n \<and> n < 2 ^ bitlen n"
proof (induction n rule: less_induct)
  case (less n)
  show ?case
  proof (cases "n div 2 = 0")
    case True
    with less.prems have "n = 1" by presburger
    then show ?thesis by (simp add: bitlen_pos bitlen_zero)
  next
    case False
    then have pos: "0 < n div 2" by simp
    have lt: "n div 2 < n" using less.prems by simp
    from less.IH[OF lt pos] have
      lo: "2 ^ (bitlen (n div 2) - 1) \<le> n div 2" and hi: "n div 2 < 2 ^ bitlen (n div 2)" by auto
    have b1: "bitlen (n div 2) = Suc (bitlen (n div 2 div 2))" using pos by (rule bitlen_pos)
    have bl: "bitlen n = Suc (bitlen (n div 2))" using less.prems by (rule bitlen_pos)
    have "2 ^ bitlen (n div 2) = 2 * (2::nat) ^ (bitlen (n div 2) - 1)"
      by (simp add: b1)
    with lo have "2 ^ bitlen (n div 2) \<le> 2 * (n div 2)" by linarith
    also have "\<dots> \<le> n" by simp
    finally have a: "2 ^ (bitlen n - 1) \<le> n" by (simp add: bl)
    from hi have "n div 2 + 1 \<le> 2 ^ bitlen (n div 2)" by simp
    then have "2 * (n div 2 + 1) \<le> 2 * 2 ^ bitlen (n div 2)" by simp
    moreover have "n < 2 * (n div 2 + 1)" by presburger
    ultimately have "n < 2 ^ bitlen n" by (simp add: bl)
    with a show ?thesis by simp
  qed
qed


lemma round_half_even_err:
  assumes "0 < den"
  shows "\<bar>of_int (round_half_even num den) - (of_int num / of_int den :: rat)\<bar> \<le> 1 / 2"
proof -
  define m where "m = num div den"
  define r where "r = num mod den"
  have num: "num = m * den + r" by (simp add: m_def r_def)
  have r: "0 \<le> r" "r < den" using assms by (simp_all add: r_def)
  have d: "(0::rat) < of_int den" using assms by simp
  have q: "(of_int num / of_int den :: rat) = of_int m + of_int r / of_int den"
    using d by (simp add: num field_simps)
  have r1: "(of_int r / of_int den :: rat) < 1" "(0::rat) \<le> of_int r / of_int den"
    using r d by simp_all
  show ?thesis
  proof (cases "den < 2 * r \<or> (2 * r = den \<and> odd m)")
    case True
    then have rh: "round_half_even num den = m + 1"
      by (simp add: round_half_even_def m_def r_def Let_def)
    from True have "den \<le> 2 * r" by auto
    then have "(of_int den :: rat) \<le> of_int (2 * r)" by (simp only: of_int_le_iff)
    then have "(1/2 :: rat) \<le> of_int r / of_int den" using d by (simp add: field_simps)
    with r1 show ?thesis unfolding rh q by (simp add: abs_le_iff)
  next
    case False
    then have rh: "round_half_even num den = m"
      by (simp add: round_half_even_def m_def r_def Let_def)
    from False have "2 * r \<le> den" by auto
    then have "(of_int (2 * r) :: rat) \<le> of_int den" by (simp only: of_int_le_iff)
    then have "(of_int r / of_int den :: rat) \<le> 1/2" using d by (simp add: field_simps)
    with r1 show ?thesis unfolding rh q by (simp add: abs_le_iff)
  qed
qed

lemma scaled_ge_iff:
  assumes "0 < d"
  shows "scaled_ge n d k \<longleftrightarrow> pow2 k \<le> (of_int n / of_int d :: rat)"
proof -
  have d: "(0::rat) < of_int d" using assms by simp
  show ?thesis
  proof (cases "0 \<le> k")
    case True
    have "(d * 2 ^ nat k \<le> n) = ((of_int (d * 2 ^ nat k) :: rat) \<le> of_int n)"
      by (simp only: of_int_le_iff)
    also have "\<dots> = (2 ^ nat k \<le> (of_int n / of_int d :: rat))"
      using d by (simp add: field_simps)
    finally show ?thesis using True by (simp add: scaled_ge_def pow2_def)
  next
    case False
    have "(d \<le> n * 2 ^ nat (- k)) = ((of_int d :: rat) \<le> of_int (n * 2 ^ nat (- k)))"
      by (simp only: of_int_le_iff)
    also have "\<dots> = (1 / 2 ^ nat (- k) \<le> (of_int n / of_int d :: rat))"
      using d by (simp add: field_simps)
    finally show ?thesis using False by (simp add: scaled_ge_def pow2_def)
  qed
qed

lemma bitlen_rat:
  assumes "0 < n"
  shows "pow2 (int (bitlen (nat n)) - 1) \<le> (of_int n :: rat)" and "(of_int n :: rat) < pow2 (int (bitlen (nat n)))"
proof -
  have pos: "0 < nat n" using assms by simp
  from bitlen_bounds[OF pos] have lo: "2 ^ (bitlen (nat n) - 1) \<le> nat n" and hi: "nat n < 2 ^ bitlen (nat n)"
    by auto
  have b: "0 < bitlen (nat n)" using pos by (simp add: bitlen_pos)
  have n: "(of_int n :: rat) = of_nat (nat n)" using assms by simp
  from lo have "(of_nat (2 ^ (bitlen (nat n) - 1)) :: rat) \<le> of_nat (nat n)"
    by (simp only: of_nat_le_iff)
  then have "(2 ^ (bitlen (nat n) - 1) :: rat) \<le> of_int n" by (simp add: n)
  moreover have "int (bitlen (nat n)) - 1 = int (bitlen (nat n) - 1)" using b by simp
  ultimately show "pow2 (int (bitlen (nat n)) - 1) \<le> (of_int n :: rat)"
    by (simp only: pow2_nat)
  from hi have "(of_nat (nat n) :: rat) < of_nat (2 ^ bitlen (nat n))"
    by (simp only: of_nat_less_iff)
  then show "(of_int n :: rat) < pow2 (int (bitlen (nat n)))"
    by (simp add: n pow2_nat)
qed

lemma floor_log2_bounds:
  assumes "0 < n" "0 < d"
  shows "pow2 (floor_log2 n d) \<le> (of_int n / of_int d :: rat)"
    and "(of_int n / of_int d :: rat) < pow2 (floor_log2 n d + 1)"
proof -
  define a where "a = int (bitlen (nat n))"
  define b where "b = int (bitlen (nat d))"
  define x :: rat where "x = of_int n / of_int d"
  have dpos: "(0::rat) < of_int d" and npos: "(0::rat) < of_int n" using assms by simp_all
  have n1: "pow2 (a - 1) \<le> of_int n" and n2: "(of_int n :: rat) < pow2 a"
    using bitlen_rat[OF assms(1)] by (simp_all add: a_def)
  have d1: "pow2 (b - 1) \<le> of_int d" and d2: "(of_int d :: rat) < pow2 b"
    using bitlen_rat[OF assms(2)] by (simp_all add: b_def)
  have up: "x < pow2 (a - b + 1)"
  proof -
    have "x * of_int d = of_int n" using dpos by (simp add: x_def)
    also have "\<dots> < pow2 a" by (rule n2)
    also have "pow2 a = pow2 (a - b + 1) * pow2 (b - 1)" by (simp flip: pow2_add)
    also have "\<dots> \<le> pow2 (a - b + 1) * of_int d"
      using d1 by (intro mult_left_mono) (simp_all add: less_imp_le)
    finally show ?thesis using dpos by simp
  qed
  have lo: "pow2 (a - b - 1) < x"
  proof -
    have "pow2 (a - b - 1) * of_int d < pow2 (a - b - 1) * pow2 b"
      using d2 by (intro mult_strict_left_mono) simp_all
    also have "\<dots> = pow2 (a - 1)" by (simp flip: pow2_add)
    also have "\<dots> \<le> of_int n" by (rule n1)
    also have "\<dots> = x * of_int d" using dpos by (simp add: x_def)
    finally show ?thesis using dpos by simp
  qed
  have fl: "floor_log2 n d = (if pow2 (a - b) \<le> x then a - b else a - b - 1)"
    by (simp add: floor_log2_def Let_def scaled_ge_iff[OF assms(2)] a_def b_def x_def)
  show "pow2 (floor_log2 n d) \<le> (of_int n / of_int d :: rat)"
    using lo by (simp add: fl x_def[symmetric] less_imp_le)
  show "(of_int n / of_int d :: rat) < pow2 (floor_log2 n d + 1)"
    using up by (auto simp: fl x_def[symmetric] not_le)
qed

lemma round_ratio_err:
  assumes n: "0 < n" and d: "0 < d"
    and lo: "- 1022 \<le> floor_log2 n d" and hi: "floor_log2 n d \<le> 1022"
  shows "\<exists>m p. round_ratio n d = Finite m p \<and> 0 < m \<and>
     \<bar>of_int m * pow2 p - (of_int n / of_int d :: rat)\<bar> \<le> pow2 (floor_log2 n d - 53)"
proof -
  define e where "e = floor_log2 n d"
  define p where "p = e - 52"
  define x :: rat where "x = of_int n / of_int d"
  define m0 where "m0 = (if 0 \<le> p then round_half_even n (d * 2 ^ nat p)
                         else round_half_even (n * 2 ^ nat (- p)) d)"
  have dpos: "(0::rat) < of_int d" using d by simp
  have xe: "pow2 e \<le> x" using floor_log2_bounds(1)[OF n d] by (simp add: e_def x_def)
  have scaled: "\<bar>of_int m0 - x / pow2 p\<bar> \<le> 1 / 2"
  proof (cases "0 \<le> p")
    case True
    have "0 < d * 2 ^ nat p" using d by simp
    from round_half_even_err[OF this, of n]
    show ?thesis using True dpos by (simp add: m0_def x_def pow2_def field_simps)
  next
    case False
    from round_half_even_err[OF d, of "n * 2 ^ nat (- p)"]
    show ?thesis using False dpos by (simp add: m0_def x_def pow2_def field_simps)
  qed
  have "\<bar>of_int m0 * pow2 p - x\<bar> = pow2 p * \<bar>of_int m0 - x / pow2 p\<bar>"
  proof -
    have "of_int m0 * pow2 p - x = pow2 p * (of_int m0 - x / pow2 p)"
      using pow2_pos[of p] by (simp add: field_simps)
    then show ?thesis by (simp add: abs_mult)
  qed
  also have "\<dots> \<le> pow2 p * (1 / 2)"
    using scaled by (intro mult_left_mono) (simp_all add: less_imp_le)
  also have "\<dots> = pow2 (e - 53)"
  proof -
    have p1: "pow2 1 = 2" by (simp add: pow2_def)
    have "pow2 p = pow2 (e - 53) * pow2 1" by (simp add: p_def flip: pow2_add)
    then show ?thesis by (simp add: p1)
  qed
  finally have err: "\<bar>of_int m0 * pow2 p - x\<bar> \<le> pow2 (e - 53)" .
  have m0pos: "0 < m0"
  proof -
    have "pow2 52 \<le> x / pow2 p"
    proof -
      have "pow2 e = pow2 52 * pow2 p" by (simp add: p_def flip: pow2_add)
      with xe show ?thesis using pow2_pos[of p] by (simp add: field_simps)
    qed
    moreover have "(1::rat) \<le> pow2 52" by (simp add: pow2_def)
    ultimately have "(1::rat) \<le> x / pow2 p" by linarith
    with scaled have "(0::rat) < of_int m0" by linarith
    then show ?thesis by (simp only: of_int_0_less_iff)
  qed
  have rr: "round_ratio n d =
     (if m0 = 2 ^ 53 then (if 971 < p + 1 then Inf False else Finite (2 ^ 52) (p + 1))
      else (if 971 < p then Inf False else Finite m0 p))"
    using n lo by (simp add: round_ratio_def Let_def m0_def p_def e_def max_def)
  have pr: "\<not> 971 < p + 1" "\<not> 971 < p" using hi by (simp_all add: p_def e_def)
  show ?thesis
  proof (cases "m0 = 2 ^ 53")
    case True
    have "round_ratio n d = Finite (2 ^ 52) (p + 1)" using rr pr True by simp
    moreover have "(of_int (2 ^ 52) * pow2 (p + 1) :: rat) = of_int m0 * pow2 p"
    proof -
      have p1: "pow2 1 = 2" by (simp add: pow2_def)
      have "pow2 (p + 1) = pow2 p * pow2 1" by (rule pow2_add)
      then show ?thesis by (simp add: True p1)
    qed
    ultimately show ?thesis using err unfolding x_def e_def
      by (intro exI[of _ "2 ^ 52"] exI[of _ "p + 1"]) simp
  next
    case False
    have "round_ratio n d = Finite m0 p" using rr pr False by simp
    then show ?thesis using err m0pos unfolding x_def e_def
      by (intro exI[of _ m0] exI[of _ p]) simp
  qed
qed

lemma hundred: "py_float_of_int 100 = Inr (Finite 7036874417766400 (- 46))"
  by (simp add: py_float_of_int_def round_ratio_def floor_log2_def scaled_ge_def round_half_even_def
      Let_def bitlen.simps)

lemma hundred_value: "(of_int 7036874417766400 * pow2 (- 46) :: rat) = 100"
  by (simp add: pow2_def)

lemma pow2_le_iff: "pow2 a \<le> pow2 b \<longleftrightarrow> a \<le> b"
  by (metis pow2_less_iff not_less)

lemma round_ratio_rel_err:
  assumes n: "0 < n" and d: "0 < d"
    and lo: "pow2 (- 1022) \<le> (of_int n / of_int d :: rat)"
    and hi: "(of_int n / of_int d :: rat) < pow2 1023"
  shows "\<exists>m p. round_ratio n d = Finite m p \<and> 0 < m \<and>
     \<bar>of_int m * pow2 p - (of_int n / of_int d :: rat)\<bar> \<le> (of_int n / of_int d) * pow2 (- 53)"
proof -
  define e where "e = floor_log2 n d"
  define x :: rat where "x = of_int n / of_int d"
  have b1: "pow2 e \<le> x" and b2: "x < pow2 (e + 1)"
    using floor_log2_bounds[OF n d] by (simp_all add: e_def x_def)
  from b1 hi have "pow2 e < pow2 1023" unfolding x_def by linarith
  then have e_hi: "e \<le> 1022" by (simp add: pow2_less_iff)
  from b2 lo have "pow2 (- 1022) < pow2 (e + 1)" unfolding x_def by linarith
  then have e_lo: "- 1022 \<le> e" by (simp add: pow2_less_iff)
  from round_ratio_err[OF n d e_lo[unfolded e_def] e_hi[unfolded e_def]]
  obtain m p where r: "round_ratio n d = Finite m p" "0 < m"
    "\<bar>of_int m * pow2 p - x\<bar> \<le> pow2 (e - 53)"
    unfolding x_def e_def by blast
  have "pow2 (e - 53) = pow2 e * pow2 (- 53)" by (simp flip: pow2_add)
  also have "\<dots> \<le> x * pow2 (- 53)"
    using b1 by (intro mult_right_mono) (simp_all add: less_imp_le)
  finally have "pow2 (e - 53) \<le> x * pow2 (- 53)" .
  with r show ?thesis unfolding x_def by (intro exI[of _ m] exI[of _ p]) linarith
qed

lemma py_float_mul_hundred:
  assumes "0 < mq"
  shows "\<exists>N D. 0 < N \<and> 0 < D \<and>
     py_float_mul (Finite mq pq) (Finite 7036874417766400 (- 46)) = round_ratio N D \<and>
     (of_int N / of_int D :: rat) = 100 * (of_int mq * pow2 pq)"
proof (cases "0 \<le> pq + (- 46)")
  case True
  define N where "N = mq * 7036874417766400 * 2 ^ nat (pq + (- 46))"
  have "0 < N" using assms by (simp add: N_def)
  moreover have "py_float_mul (Finite mq pq) (Finite 7036874417766400 (- 46)) = round_ratio N 1"
    using True by (simp add: py_float_mul_def N_def)
  moreover have "(of_int N / of_int 1 :: rat) = 100 * (of_int mq * pow2 pq)"
  proof -
    have "(of_int N :: rat) = of_int mq * (of_int 7036874417766400 * pow2 (pq + (- 46)))"
      using True by (simp add: N_def pow2_def)
    also have "pow2 (pq + (- 46)) = pow2 pq * pow2 (- 46)" by (rule pow2_add)
    finally show ?thesis using hundred_value by (simp add: algebra_simps)
  qed
  ultimately show ?thesis by (intro exI[of _ N] exI[of _ 1]) simp
next
  case False
  define N where "N = mq * 7036874417766400"
  define D :: int where "D = 2 ^ nat (- (pq + (- 46)))"
  have "0 < N" "0 < D" using assms by (simp_all add: N_def D_def)
  moreover have "py_float_mul (Finite mq pq) (Finite 7036874417766400 (- 46)) = round_ratio N D"
    using False by (simp add: py_float_mul_def N_def D_def)
  moreover have "(of_int N / of_int D :: rat) = 100 * (of_int mq * pow2 pq)"
  proof -
    have "(of_int N / of_int D :: rat) = of_int mq * (of_int 7036874417766400 * pow2 (pq + (- 46)))"
      using False by (simp add: N_def D_def pow2_def)
    also have "pow2 (pq + (- 46)) = pow2 pq * pow2 (- 46)" by (rule pow2_add)
    finally show ?thesis using hundred_value by (simp add: algebra_simps)
  qed
  ultimately show ?thesis by (intro exI[of _ N] exI[of _ D]) simp
qed

lemma engagement_rate_accuracy:
  fixes likes cmts shares views :: int
  assumes v: "0 < views" and s: "0 < likes + cmts + shares"
    and sb: "likes + cmts + shares < 2 ^ 1000" and vb: "views < 2 ^ 1000"
  shows "\<exists>m p. calculate_engagement_rate likes cmts shares views = Inr (PFloat (Finite m p)) \<and>
     \<bar>of_int m * pow2 p - 100 * (of_int (likes + cmts + shares) / of_int views :: rat)\<bar>
       \<le> 100 * (of_int (likes + cmts + shares) / of_int views) * pow2 (- 51)"
proof -
  define t where "t = likes + cmts + shares"
  define x :: rat where "x = of_int t / of_int views"
  have v1: "(1::rat) \<le> of_int views" using v by simp
  have t1: "(1::rat) \<le> of_int t" using s by (simp add: t_def)
  have vb': "(of_int views :: rat) < pow2 1000"
  proof -
    have "(of_int views :: rat) < of_int (2 ^ 1000)" using vb by (simp only: of_int_less_iff)
    then show ?thesis by (simp add: pow2_def)
  qed
  have tb': "(of_int t :: rat) < pow2 1000"
  proof -
    have "(of_int t :: rat) < of_int (2 ^ 1000)" using sb unfolding t_def by (simp only: of_int_less_iff)
    then show ?thesis by (simp add: pow2_def)
  qed
  have xpos: "0 < x" using v1 t1 by (simp add: x_def)
  have x_hi: "x < pow2 1000"
  proof -
    have "x \<le> of_int t" using v1 t1 by (simp add: x_def field_simps)
    with tb' show ?thesis by linarith
  qed
  have x_lo: "pow2 (- 1000) < x"
  proof -
    have "pow2 (- 1000) * of_int views < pow2 (- 1000) * pow2 1000"
      using vb' by (intro mult_strict_left_mono) simp_all
    also have "\<dots> = 1" by (simp flip: pow2_add) (simp add: pow2_def)
    also have "\<dots> \<le> of_int t" by (rule t1)
    also have "\<dots> = x * of_int views" using v1 by (simp add: x_def)
    finally show ?thesis using v1 by simp
  qed
  have r1: "pow2 (- 1022) \<le> x" using x_lo pow2_mono[of "- 1022" "- 1000"] by linarith
  have r2: "x < pow2 1023" using x_hi pow2_mono[of 1000 1023] by linarith
  from round_ratio_rel_err[OF s[folded t_def] v r1[unfolded x_def] r2[unfolded x_def]]
  obtain mq pq where q: "round_ratio t views = Finite mq pq" "0 < mq"
    "\<bar>of_int mq * pow2 pq - x\<bar> \<le> x * pow2 (- 53)"
    unfolding x_def by blast
  define Q :: rat where "Q = of_int mq * pow2 pq"
  have div: "py_truediv t views = Inr (Finite mq pq)"
    using v q(1) by (simp add: py_truediv_def)
  from py_float_mul_hundred[OF q(2), of pq]
  obtain N D where nd: "0 < N" "0 < D"
    "py_float_mul (Finite mq pq) (Finite 7036874417766400 (- 46)) = round_ratio N D"
    "(of_int N / of_int D :: rat) = 100 * Q"
    unfolding Q_def by blast
  have small: "pow2 (- 53) \<le> 1 / 2" by (simp add: pow2_def)
  have xs: "x * pow2 (- 53) \<le> x / 2"
    using xpos small by (simp add: field_simps)
  have Q_lo: "x / 2 \<le> Q" and Q_hi: "Q \<le> 2 * x"
    using q(3) xs xpos unfolding Q_def by linarith+
  have y_lo: "pow2 (- 1022) \<le> 100 * Q"
  proof -
    have "pow2 (- 1022) \<le> pow2 (- 1001)" by (rule pow2_mono) simp
    also have "pow2 (- 1001) = pow2 (- 1000) * pow2 (- 1)" by (simp flip: pow2_add)
    also have "\<dots> = pow2 (- 1000) / 2" by (simp add: pow2_def[of "- 1"])
    also have "\<dots> \<le> x / 2" using x_lo by simp
    also have "\<dots> \<le> 100 * Q" using Q_lo xpos by linarith
    finally show ?thesis .
  qed
  have y_hi: "100 * Q < pow2 1023"
  proof -
    have "100 * Q \<le> 200 * x" using Q_hi by linarith
    also have "\<dots> < 200 * pow2 1000" using x_hi by simp
    also have "\<dots> \<le> pow2 8 * pow2 1000" by (simp add: pow2_def[of 8])
    also have "\<dots> = pow2 1008" by (simp flip: pow2_add)
    also have "\<dots> \<le> pow2 1023" by (rule pow2_mono) simp
    finally show ?thesis .
  qed
  from round_ratio_rel_err[OF nd(1,2) y_lo[folded nd(4)] y_hi[folded nd(4)]]
  obtain m p where r: "round_ratio N D = Finite m p"
    "\<bar>of_int m * pow2 p - 100 * Q\<bar> \<le> 100 * Q * pow2 (- 53)"
    unfolding nd(4) by blast
  have calc: "calculate_engagement_rate likes cmts shares views = Inr (PFloat (Finite m p))"
    using v div nd(3) r(1) by (simp add: calculate_engagement_rate_def t_def[symmetric] bindE_def hundred)
  have e1: "\<bar>100 * Q - 100 * x\<bar> \<le> 100 * x * pow2 (- 53)"
    using q(3) unfolding Q_def by linarith
  have e2: "100 * Q * pow2 (- 53) \<le> 200 * x * pow2 (- 53)"
    using Q_hi by (simp add: less_imp_le)
  have p51: "pow2 (- 51) = 4 * pow2 (- 53)"
  proof -
    have "pow2 (- 51) = pow2 2 * pow2 (- 53)" by (simp flip: pow2_add)
    then show ?thesis by (simp add: pow2_def[of 2])
  qed
  have "\<bar>of_int m * pow2 p - 100 * x\<bar> \<le> 300 * x * pow2 (- 53)"
    using r(2) e1 e2 by linarith
  also have "\<dots> \<le> 100 * x * pow2 (- 51)"
    using xpos by (simp add: p51 less_imp_le)
  finally show ?thesis using calc unfolding x_def t_def by blast
qed

lemma engagement_rate_zero_sum:
  assumes "0 < views" and "likes + cmts + shares = 0"
  shows "calculate_engagement_rate likes cmts shares views = Inr (PFloat (Finite 0 (- 1074)))"
  using assms
  by (simp add: calculate_engagement_rate_def bindE_def py_truediv_def hundred py_float_mul_def
      round_ratio_def)

section \<open>Runs on the example data\<close>

lemma process_comments_bob:
  "process_comments E fuel (replicate k comment_bob) (JStr ''alice'') w =
     Some (Inr (replicate k comment_bob_done), w)"
  by (induction k)
    (simp_all add: comment_bob_def comment_bob_done_def py_subscript_def bindE_def
      extract_comment_replies_def py_get_def py_le_int_def as_int_def)

lemma batch_pages19:
  "extract_comment_batch env_pages19 fuel vid c 20 (JStr ''alice'') w =
     Some (Inr (replicate 19 comment_bob_done), w @ [Get (CommentReq vid c 20), Log ReturningData])"
  by (simp add: extract_comment_batch_def get_request_data_async_def env_pages19_def
      py_json_loads_def bindE_def page19_def py_get_def py_iter_def process_comments_bob)

lemma comment_pages19_step:
  "k + 19 < 100 \<Longrightarrow>
   comment_pages env_pages19 (Suc n) vid (JStr ''alice'') c 20 (replicate k comment_bob_done) w =
   comment_pages env_pages19 n vid (JStr ''alice'') (c + 20) 20 (replicate (k + 19) comment_bob_done)
     (w @ [Get (CommentReq vid c 20), Log ReturningData])"
  by (simp add: batch_pages19 replicate_add)

lemma comment_pages19_last:
  "100 \<le> k + 19 \<Longrightarrow>
   comment_pages env_pages19 (Suc n) vid (JStr ''alice'') c 20 (replicate k comment_bob_done) w =
   Some (Inr (replicate (k + 19) comment_bob_done), w @ [Get (CommentReq vid c 20), Log ReturningData])"
  by (simp add: batch_pages19 replicate_add)

lemma run_pages19:
  "extract_comments env_pages19 6 (JStr ''7'') (JStr ''alice'') [] =
     Some (Inr (replicate 114 comment_bob_done),
       [Get (CommentReq (JStr ''7'') 0 20), Log ReturningData,
        Get (CommentReq (JStr ''7'') 20 20), Log ReturningData,
        Get (CommentReq (JStr ''7'') 40 20), Log ReturningData,
        Get (CommentReq (JStr ''7'') 60 20), Log ReturningData,
        Get (CommentReq (JStr ''7'') 80 20), Log ReturningData,
        Get (CommentReq (JStr ''7'') 100 20), Log ReturningData])"
proof -
  have six: "(6::nat) = Suc (Suc (Suc (Suc (Suc (Suc 0)))))" by simp
  have "comment_pages env_pages19 (Suc (Suc (Suc (Suc (Suc (Suc 0)))))) (JStr ''7'') (JStr ''alice'') 0 20
      (replicate 0 comment_bob_done) [] =
     Some (Inr (replicate 114 comment_bob_done),
       [Get (CommentReq (JStr ''7'') 0 20), Log ReturningData,
        Get (CommentReq (JStr ''7'') 20 20), Log ReturningData,
        Get (CommentReq (JStr ''7'') 40 20), Log ReturningData,
        Get (CommentReq (JStr ''7'') 60 20), Log ReturningData,
        Get (CommentReq (JStr ''7'') 80 20), Log ReturningData,
        Get (CommentReq (JStr ''7'') 100 20), Log ReturningData])"
    by (simp only: comment_pages19_step comment_pages19_last) simp
  then show ?thesis by (simp add: extract_comments_def six)
qed

lemmas text_defs = reply_page_text_def reply_page_token_text_def empty_page_text_def comment_few_page_text_def

lemma str0: "py_str_int 0 = ''0''" by (simp add: py_str_int_def)
lemma str6: "py_str_int 6 = ''6''" by (simp add: py_str_int_def)

lemma fetch_thread_first:
  "fetch_comment_replies (env_thread reply_page_text) (JStr ''c1'') (JStr ''7'') ''0'' (JStr ''alice'') [] =
    (Inr ([reply_alice_marked], JInt 5), [Get (ReplyReq (JStr ''c1'') (JStr ''7'') ''0''), Log ReturningData])"
  by (simp add: fetch_comment_replies_def get_request_data_async_def env_thread_def py_json_loads_def
      bindE_def reply_page_def py_get_def py_iter_def reply_alice_def reply_alice_marked_def py_subscript_def)

lemma fetch_thread_token:
  "fetch_comment_replies (env_thread reply_page_token_text) (JStr ''c1'') (JStr ''7'') ''0'' (JStr ''alice'') [] =
    (Inr ([reply_alice_marked], JStr ''next''), [Get (ReplyReq (JStr ''c1'') (JStr ''7'') ''0''), Log ReturningData])"
  by (simp add: fetch_comment_replies_def get_request_data_async_def env_thread_def py_json_loads_def
      bindE_def reply_page_token_def py_get_def py_iter_def reply_alice_def reply_alice_marked_def py_subscript_def
      text_defs)

lemma fetch_thread_second:
  "fetch_comment_replies (env_thread t) (JStr ''c1'') (JStr ''7'') ''6'' (JStr ''alice'') w =
    (Inr ([], JStr []), w @ [Get (ReplyReq (JStr ''c1'') (JStr ''7'') ''6''), Log ReturningData])"
  by (simp add: fetch_comment_replies_def get_request_data_async_def env_thread_def py_json_loads_def
      bindE_def empty_page_def py_get_def py_iter_def text_defs)

lemma run_thread_numeric:
  "extract_comment_replies (env_thread reply_page_text) 2 (JObj comment_many) (JStr ''alice'') [] =
     Some (Inr (JList [reply_alice_marked]),
       [Get (ReplyReq (JStr ''c1'') (JStr ''7'') ''0''), Log ReturningData,
        Get (ReplyReq (JStr ''c1'') (JStr ''7'') ''6''), Log ReturningData])"
proof -
  have two: "(2::nat) = Suc (Suc 0)" by simp
  show ?thesis
    unfolding two
    by (simp add: extract_comment_replies_def comment_many_def py_get_def bindE_def py_le_int_def as_int_def
        str0 str6 fetch_thread_first fetch_thread_second py_add_one_def)
qed

lemma run_thread_token:
  "extract_comment_replies (env_thread reply_page_token_text) 2 (JObj comment_many) (JStr ''alice'') [] =
     Some (Inl TypeError, [Get (ReplyReq (JStr ''c1'') (JStr ''7'') ''0''), Log ReturningData])"
proof -
  have two: "(2::nat) = Suc (Suc 0)" by simp
  show ?thesis
    unfolding two
    by (simp add: extract_comment_replies_def comment_many_def py_get_def bindE_def py_le_int_def as_int_def
        str0 fetch_thread_token py_add_one_def)
qed

lemma run_batch_inline:
  "extract_comment_batch (env_thread reply_page_text) 0 (JStr ''7'') 0 20 (JStr ''alice'') [] =
     Some (Inr [JObj [(''cid'', JStr ''c1''), (''aweme_id'', JStr ''7''),
                      (''user'', JObj [(''unique_id'', JStr ''bob'')]),
                      (''reply_comment_total'', JInt 3),
                      (''reply_comment'', JList [reply_alice, reply_carol]),
                      (''is_author_reply'', JBool False),
                      (''replies'', JList [reply_alice, reply_carol])]],
           [Get (CommentReq (JStr ''7'') 0 20), Log ReturningData])"
  by (simp add: extract_comment_batch_def get_request_data_async_def env_thread_def py_json_loads_def
      bindE_def comment_few_page_def comment_few_def py_get_def py_iter_def py_subscript_def
      extract_comment_replies_def py_le_int_def as_int_def text_defs)

lemma demo_rate: "calculate_engagement_rate 10 5 5 100 = Inr (PFloat (Finite 5629499534213120 (- 48)))"
  by (simp add: calculate_engagement_rate_def bindE_def py_truediv_def py_float_of_int_def py_float_mul_def
    round_ratio_def floor_log2_def scaled_ge_def round_half_even_def Let_def bitlen.simps)

lemma demo_item_rate: "item_engagement_rate demo_item = Inr (PFloat (Finite 5629499534213120 (- 48)))"
  by (simp add: item_engagement_rate_def item_stat_def demo_item_def py_subscript_def bindE_def
      calculate_engagement_rate_json_def as_int_def demo_rate)




lemma run_demo_item:
  "process_video_item env_search (Suc 0) demo_item w =
     Some (Inr (), w @
       [Get (ProfileReq (JStr ''alice'')), Log (UnableStatus 404), Log (AuthorMetadataError TypeError),
        Get (CommentReq (JStr ''7'') 0 20), Log (UnableStatus 404), Log (CommentExtractionError TypeError),
        Post demo_item_form, Log ReturningData, Log (SavedSuccessfully (JStr ''7''))])"
  by (simp add: process_video_item_def process_video_item_try_def demo_item_rate bindE_def)
     (simp add: demo_item_def py_subscript_def py_get_def bindE_def get_author_metadata_def
       get_author_metadata_try_def get_request_data_async_def env_search_def parse_author_stats_def
       build_processed_item_def dict_merge_def extract_comments_def extract_comment_batch_def
       py_json_loads_def save_video_data_def save_video_sync_def save_video_sync_try_def
       fill_profile_data_def demo_strftime_def get_or_empty_def push_data_to_api_def
       input_data_to_api_def demo_item_form_def)

lemma search_page_0:
  "search_page env_search \<lparr>kw = k, total_data = [], offset = 0, limit = 20, max_influencers = m\<rparr> w =
     (Inr [], w @ [Get (SearchReq k 0 20), Log ReturningData])"
  by (simp add: search_page_def get_request_data_async_def env_search_def
      py_json_loads_def bindE_def empty_search_def py_subscript_def py_iter_def)

lemma search_page_20:
  "search_page env_search \<lparr>kw = k, total_data = [], offset = 20, limit = 20, max_influencers = m\<rparr> w =
     (Inr [demo_item], w @ [Get (SearchReq k 20 20), Log ReturningData])"
  by (simp add: search_page_def get_request_data_async_def env_search_def
      py_json_loads_def bindE_def one_item_search_def py_subscript_def py_iter_def
      empty_search_text_def one_item_search_text_def)

lemma search_page_40:
  "search_page env_search \<lparr>kw = k, total_data = [], offset = 40, limit = 20, max_influencers = m\<rparr> w =
     (Inl TypeError, w @ [Get (SearchReq k 40 20), Log (UnableStatus 404)])"
  by (simp add: search_page_def get_request_data_async_def env_search_def
      py_json_loads_def bindE_def)

lemma demo_item_prelude:
  "item_prelude demo_item = Inr (PFloat (Finite 5629499534213120 (- 48)), JStr ''alice'')"
  by (simp add: item_prelude_def demo_item_rate bindE_def)
     (simp add: demo_item_def py_subscript_def py_get_def)










lemma run_demo_item_try:
  "process_video_item_try env_search (Suc 0) demo_item w =
     Some (Inr (), w @
       [Get (ProfileReq (JStr ''alice'')), Log (UnableStatus 404), Log (AuthorMetadataError TypeError),
        Get (CommentReq (JStr ''7'') 0 20), Log (UnableStatus 404), Log (CommentExtractionError TypeError),
        Post demo_item_form, Log ReturningData, Log (SavedSuccessfully (JStr ''7''))])"
  using run_demo_item[of w]
  by (auto simp: process_video_item_def split: option.splits sum.splits prod.splits)

section \<open>The claims\<close>

subsection \<open>C1: an empty page\<close>

text \<open>
  C1 says that each of the three paginated loops stops at the first empty page and fetches
  nothing more, and that an empty first search page ends \<^verbatim>\<open>extract_influencers\<close> at once
  with nothing saved. The loops of \<^verbatim>\<open>extract_comments\<close> and \<^verbatim>\<open>extract_comment_replies\<close>
  do stop there (\<^verbatim>\<open>if not comments: break\<close>, \<^verbatim>\<open>if not new_replies: break\<close>); the
  search loop has no such test. On the example search, whose first page is empty, the loop
  goes on to offset 20, finds the example item there, saves it, and goes on to offset 40,
  where the refused request ends it.
\<close>

theorem search_continues_after_empty_page:
  "extract_influencers env_search 3 (init_scraper ''#k-beauty'' 50) [] =
     Some ([], \<lparr>kw = ''#k-beauty'', total_data = [], offset = 40, limit = 20, max_influencers = 50\<rparr>,
       [Get (SearchReq ''#k-beauty'' 0 20), Log ReturningData,
        Get (SearchReq ''#k-beauty'' 20 20), Log ReturningData,
        Get (ProfileReq (JStr ''alice'')), Log (UnableStatus 404), Log (AuthorMetadataError TypeError),
        Get (CommentReq (JStr ''7'') 0 20), Log (UnableStatus 404), Log (CommentExtractionError TypeError),
        Post demo_item_form, Log ReturningData, Log (SavedSuccessfully (JStr ''7'')),
        Get (SearchReq ''#k-beauty'' 40 20), Log (UnableStatus 404),
        Log (DataExtractionError TypeError)])"
proof -
  have three: "(3::nat) = Suc (Suc (Suc 0))" by simp
  show ?thesis
    unfolding three init_scraper_def
    by (simp add: search_page_0 search_page_20 run_demo_item search_page_40)
qed

subsection \<open>C2: the mark on comments and replies\<close>

text \<open>
  C2 says that every comment and every reply carries \<^verbatim>\<open>is_author_reply\<close>, the inline
  replies of a comment with at most four replies included. \<^verbatim>\<open>extract_comment_batch\<close>
  marks the comment and \<^verbatim>\<open>fetch_comment_replies\<close> marks the replies it fetches, but the
  inline list is returned as it came. On the example thread under a video of
  \<^verbatim>\<open>alice\<close>, the comment of \<^verbatim>\<open>bob\<close> is marked \<^verbatim>\<open>False\<close>, and the two inline replies,
  one of them by \<^verbatim>\<open>alice\<close>, have no such field.
\<close>

theorem inline_replies_not_marked:
  "extract_comment_batch (env_thread reply_page_text) 0 (JStr ''7'') 0 20 (JStr ''alice'') [] =
     Some (Inr [JObj [(''cid'', JStr ''c1''), (''aweme_id'', JStr ''7''),
                      (''user'', JObj [(''unique_id'', JStr ''bob'')]),
                      (''reply_comment_total'', JInt 3),
                      (''reply_comment'', JList [reply_alice, reply_carol]),
                      (''is_author_reply'', JBool False),
                      (''replies'', JList [reply_alice, reply_carol])]],
           [Get (CommentReq (JStr ''7'') 0 20), Log ReturningData]) \<and>
   py_subscript reply_alice ''user'' = Inr (JObj [(''unique_id'', JStr ''alice'')]) \<and>
   py_subscript reply_alice ''is_author_reply'' = Inl KeyError \<and>
   py_subscript reply_carol ''is_author_reply'' = Inl KeyError"
  by (simp add: run_batch_inline) (simp add: reply_alice_def reply_carol_def py_subscript_def)

subsection \<open>C3: the cap on the comments of a video\<close>

text \<open>
  C3, as the code has it. When \<^verbatim>\<open>extract_comments\<close> returns, it returns a list and no
  exception. The cap is checked after each batch is appended and before the next page is
  fetched, and nothing is cut off: a list that has reached 100 entries had fewer than 100
  before its last batch was appended, and it is returned in the very world in which the
  extraction of that batch ended, so nothing was fetched after it. That batch has one
  entry for each comment of the page the server sent for its request, so the list has at
  most 99 entries more than that page has comments: 119 when the page holds the 20 asked
  for.
\<close>

theorem extract_comments_cap:
  assumes "extract_comments E fuel vid uid w = Some (r, w')"
  shows "\<exists>cs. r = Inr cs \<and>
     (100 \<le> length cs \<longrightarrow>
        (\<exists>prev batch f c evs body j xs.
           cs = prev @ batch \<and> length prev < 100 \<and>
           extract_comment_batch E f vid c 20 uid (w @ evs) = Some (Inr batch, w') \<and>
           http_get E (w @ evs) (CommentReq vid c 20) = Status 200 body \<and>
           json_loads E body = Some j \<and> page_comments j = Inr xs \<and>
           length batch = length xs \<and> length cs \<le> 99 + length xs))"
proof -
  from assms have "comment_pages E fuel vid uid 0 20 [] w = Some (r, w')"
    by (simp add: extract_comments_def)
  moreover have "length ([]::json list) < 100" by simp
  ultimately obtain cs where
    cs: "r = Inr cs"
    "100 \<le> length cs \<longrightarrow>
        (\<exists>prev batch f c evs. cs = prev @ batch \<and> length prev < 100 \<and>
           extract_comment_batch E f vid c 20 uid (w @ evs) = Some (Inr batch, w'))"
    using comment_pages_last_batch[of E fuel vid uid 0 20 "[]" w r w'] by blast
  have "100 \<le> length cs \<longrightarrow>
        (\<exists>prev batch f c evs body j xs.
           cs = prev @ batch \<and> length prev < 100 \<and>
           extract_comment_batch E f vid c 20 uid (w @ evs) = Some (Inr batch, w') \<and>
           http_get E (w @ evs) (CommentReq vid c 20) = Status 200 body \<and>
           json_loads E body = Some j \<and> page_comments j = Inr xs \<and>
           length batch = length xs \<and> length cs \<le> 99 + length xs)"
  proof
    assume "100 \<le> length cs"
    with cs(2) obtain prev batch f c evs where
      b: "cs = prev @ batch" "length prev < 100"
      "extract_comment_batch E f vid c 20 uid (w @ evs) = Some (Inr batch, w')"
      by blast
    from extract_comment_batch_page[OF b(3)] obtain body j xs where
      p: "http_get E (w @ evs) (CommentReq vid c 20) = Status 200 body"
      "json_loads E body = Some j" "page_comments j = Inr xs" "length batch = length xs"
      by blast
    from b(1,2) p(4) have "length cs \<le> 99 + length xs" by simp
    with b p show "\<exists>prev batch f c evs body j xs.
           cs = prev @ batch \<and> length prev < 100 \<and>
           extract_comment_batch E f vid c 20 uid (w @ evs) = Some (Inr batch, w') \<and>
           http_get E (w @ evs) (CommentReq vid c 20) = Status 200 body \<and>
           json_loads E body = Some j \<and> page_comments j = Inr xs \<and>
           length batch = length xs \<and> length cs \<le> 99 + length xs"
      by blast
  qed
  with cs(1) show ?thesis by blast
qed

text \<open>The claim as written, that the list never has more than 100 entries, fails on a
  server whose pages hold 19 comments: five pages give 95, the sixth is fetched and the
  list returned has 114.\<close>

theorem extract_comments_exceeds_100:
  "\<exists>cs w'. extract_comments env_pages19 6 (JStr ''7'') (JStr ''alice'') [] = Some (Inr cs, w')
     \<and> length cs = 114"
  by (simp add: run_pages19)

text \<open>The same run under the theorem: 114 entries, of which the last 19 are the batch of
  the sixth page, returned where the extraction of that batch ended.\<close>

theorem extract_comments_cap_witness:
  "\<exists>cs w'. extract_comments env_pages19 6 (JStr ''7'') (JStr ''alice'') [] = Some (Inr cs, w') \<and>
      100 \<le> length cs \<and>
      (\<exists>prev batch f c evs body j xs.
         cs = prev @ batch \<and> length prev < 100 \<and>
         extract_comment_batch env_pages19 f (JStr ''7'') c 20 (JStr ''alice'') ([] @ evs) = Some (Inr batch, w') \<and>
         http_get env_pages19 ([] @ evs) (CommentReq (JStr ''7'') c 20) = Status 200 body \<and>
         json_loads env_pages19 body = Some j \<and> page_comments j = Inr xs \<and>
         length batch = length xs \<and> length cs \<le> 99 + length xs)"
  using extract_comments_cap[OF run_pages19] run_pages19
  by auto

subsection \<open>C4: the engagement rate\<close>

text \<open>
  C4. For all integers, \<^verbatim>\<open>calculate_engagement_rate\<close> is the float expression
  \<^verbatim>\<open>(likes + comments + shares) / views * 100\<close> when \<^verbatim>\<open>views > 0\<close> (a quotient too large
  for a float raises in the expression and so in the function), and it is \<^verbatim>\<open>0\<close> when
  \<^verbatim>\<open>views\<close> is 0, whatever the other arguments. The float expression is the rate: for
  positive views and a sum of counters that is not negative, both below \<open>2 ^ 1000\<close>, the
  result is a finite float within a relative error of \<open>2 ^ - 51\<close> of the exact
  \<open>100 * (likes + comments + shares) / views\<close>. For 10 likes, 5 comments, 5 shares and 100
  views the two roundings give the float whose value is exactly 20.
\<close>

theorem engagement_rate_formula:
  "calculate_engagement_rate likes replies shares views =
     (if 0 < views
      then bindE (py_truediv (likes + replies + shares) views)
             (\<lambda>q. bindE (py_float_of_int 100) (\<lambda>h. Inr (PFloat (py_float_mul q h))))
      else Inr (PInt 0)) \<and>
   calculate_engagement_rate likes replies shares 0 = Inr (PInt 0) \<and>
   (0 < views \<and> views < 2 ^ 1000 \<and> 0 \<le> likes + replies + shares \<and> likes + replies + shares < 2 ^ 1000 \<longrightarrow>
      (\<exists>x r. calculate_engagement_rate likes replies shares views = Inr (PFloat x) \<and>
         float_value x = Some r \<and>
         \<bar>r - 100 * (of_int (likes + replies + shares) / of_int views)\<bar>
           \<le> 100 * (of_int (likes + replies + shares) / of_int views) * pow2 (- 51))) \<and>
   calculate_engagement_rate 10 5 5 100 = Inr (PFloat (Finite 5629499534213120 (- 48))) \<and>
   float_value (Finite 5629499534213120 (- 48)) = Some 20"
proof (intro conjI impI)
  show "calculate_engagement_rate likes replies shares views =
     (if 0 < views
      then bindE (py_truediv (likes + replies + shares) views)
             (\<lambda>q. bindE (py_float_of_int 100) (\<lambda>h. Inr (PFloat (py_float_mul q h))))
      else Inr (PInt 0))"
    by (simp add: calculate_engagement_rate_def)
  show "calculate_engagement_rate likes replies shares 0 = Inr (PInt 0)"
    by (simp add: calculate_engagement_rate_def)
  show "calculate_engagement_rate 10 5 5 100 = Inr (PFloat (Finite 5629499534213120 (- 48)))"
    by (rule demo_rate)
  show "float_value (Finite 5629499534213120 (- 48)) = Some 20"
    by (simp add: float_value_def pow2_def)
next
  assume a: "0 < views \<and> views < 2 ^ 1000 \<and> 0 \<le> likes + replies + shares \<and>
    likes + replies + shares < 2 ^ 1000"
  show "\<exists>x r. calculate_engagement_rate likes replies shares views = Inr (PFloat x) \<and>
         float_value x = Some r \<and>
         \<bar>r - 100 * (of_int (likes + replies + shares) / of_int views)\<bar>
           \<le> 100 * (of_int (likes + replies + shares) / of_int views) * pow2 (- 51)"
  proof (cases "likes + replies + shares = 0")
    case True
    with a engagement_rate_zero_sum[of views likes replies shares]
    have "calculate_engagement_rate likes replies shares views = Inr (PFloat (Finite 0 (- 1074)))"
      by simp
    moreover have "float_value (Finite 0 (- 1074)) = Some 0" by (simp add: float_value_def)
    ultimately show ?thesis using True by (intro exI[of _ "Finite 0 (- 1074)"] exI[of _ 0]) simp
  next
    case False
    with a have "0 < likes + replies + shares" by simp
    from engagement_rate_accuracy[OF _ this, of views] a
    obtain m p where
      "calculate_engagement_rate likes replies shares views = Inr (PFloat (Finite m p))"
      "\<bar>of_int m * pow2 p - 100 * (of_int (likes + replies + shares) / of_int views :: rat)\<bar>
        \<le> 100 * (of_int (likes + replies + shares) / of_int views) * pow2 (- 51)"
      by blast
    then show ?thesis
      by (intro exI[of _ "Finite m p"] exI[of _ "of_int m * pow2 p"]) (simp add: float_value_def)
  qed
qed

text \<open>Scenario B under the theorem: the result has the value 20, which is the exact rate.\<close>

theorem engagement_rate_formula_witness:
  "(0::int) < 100 \<and> (100::int) < 2 ^ 1000 \<and> (0::int) \<le> 10 + 5 + 5 \<and> (10 + 5 + 5 :: int) < 2 ^ 1000 \<and>
   (\<exists>x r. calculate_engagement_rate 10 5 5 100 = Inr (PFloat x) \<and> float_value x = Some r \<and>
      r = 20 \<and> \<bar>r - 100 * (of_int (10 + 5 + 5) / of_int 100)\<bar> \<le> 100 * (of_int (10 + 5 + 5) / of_int 100) * pow2 (- 51))"
proof -
  note t = engagement_rate_formula[of 10 5 5 100]
  from t have e: "calculate_engagement_rate 10 5 5 100 = Inr (PFloat (Finite 5629499534213120 (- 48)))"
    by (elim conjE)
  from t have v: "float_value (Finite 5629499534213120 (- 48)) = Some 20"
    by (elim conjE)
  have b: "\<bar>(20::rat) - 100 * (of_int (10 + 5 + 5) / of_int 100)\<bar>
      \<le> 100 * (of_int (10 + 5 + 5) / of_int 100) * pow2 (- 51)"
    by (simp add: pow2_def)
  show ?thesis
    using e v b by (intro conjI exI[of _ "Finite 5629499534213120 (- 48)"] exI[of _ 20]) simp_all
qed

subsection \<open>C5: inline replies or fetched replies\<close>

text \<open>
  C5. Let the stated reply count of a comment be the integer \<open>n\<close> (0 when the comment
  states none). If \<open>n \<le> 4\<close>, \<^verbatim>\<open>extract_comment_replies\<close> returns the embedded
  \<^verbatim>\<open>reply_comment\<close> list as it is (the empty list when there is none) and leaves the world
  as it was: no request. If \<open>n > 4\<close> and the function returns, it has sent a reply request
  with cursor \<^verbatim>\<open>"0"\<close>, and its result and its requests are the same whatever the
  embedded list is: the inline replies play no part in it.
\<close>

theorem inline_or_fetched_replies:
  assumes "py_get (JObj d) ''reply_comment_total'' (JInt 0) = Inr rc"
    and "as_int rc = Some n"
  shows "(n \<le> 4 \<longrightarrow>
            extract_comment_replies E fuel (JObj d) uid w =
              Some (py_get (JObj d) ''reply_comment'' (JList []), w)) \<and>
         (4 < n \<longrightarrow>
            (\<forall>r w' v. extract_comment_replies E fuel (JObj d) uid w = Some (r, w') \<longrightarrow>
               (\<exists>rest. w' = w @ Get (ReplyReq (get_or_empty d ''cid'') (get_or_empty d ''aweme_id'') ''0'') # rest) \<and>
               extract_comment_replies E fuel (JObj (dict_set d ''reply_comment'' v)) uid w = Some (r, w')))"
proof (intro conjI impI allI)
  assume "n \<le> 4"
  with assms show "extract_comment_replies E fuel (JObj d) uid w =
      Some (py_get (JObj d) ''reply_comment'' (JList []), w)"
    by (auto simp: extract_comment_replies_def py_get_def bindE_def py_le_int_def split: option.splits)
next
  fix r w' v
  assume n: "4 < n" and run: "extract_comment_replies E fuel (JObj d) uid w = Some (r, w')"
  from assms n have unfold: "\<And>d'. map_of d' ''cid'' = map_of d ''cid'' \<Longrightarrow>
      map_of d' ''aweme_id'' = map_of d ''aweme_id'' \<Longrightarrow>
      map_of d' ''reply_comment_total'' = map_of d ''reply_comment_total'' \<Longrightarrow>
      extract_comment_replies E fuel (JObj d') uid w =
      (case reply_pages E fuel (get_or_empty d ''cid'') (get_or_empty d ''aweme_id'') uid 0 [] w of
         None \<Rightarrow> None
       | Some (Inl e, w1) \<Rightarrow> Some (Inl e, w1)
       | Some (Inr replies, w1) \<Rightarrow> Some (Inr (JList replies), w1))"
    by (auto simp: extract_comment_replies_def py_get_def bindE_def py_le_int_def get_or_empty_def
        split: option.splits)
  from run unfold[of d]
  show "\<exists>rest. w' = w @ Get (ReplyReq (get_or_empty d ''cid'') (get_or_empty d ''aweme_id'') ''0'') # rest"
    by (auto split: option.splits sum.splits prod.splits dest!: reply_pages_first_fetch simp: str0)
  from run unfold[of d] unfold[of "dict_set d ''reply_comment'' v"]
  show "extract_comment_replies E fuel (JObj (dict_set d ''reply_comment'' v)) uid w = Some (r, w')"
    by (simp add: map_of_dict_set)
qed

text \<open>Scenario C: a comment that states three replies and embeds two returns those two
  with no request. And the comment that states five: its one embedded reply is not in the
  result, and without it the result is the same.\<close>

theorem inline_or_fetched_replies_witness:
  "extract_comment_replies (env_post_status 200) 0 (JObj comment_few) (JStr ''alice'') [] =
     Some (Inr (JList [reply_alice, reply_carol]), []) \<and>
   extract_comment_replies (env_thread reply_page_text) 2 (JObj comment_many) (JStr ''alice'') [] =
     Some (Inr (JList [reply_alice_marked]),
       [Get (ReplyReq (JStr ''c1'') (JStr ''7'') ''0''), Log ReturningData,
        Get (ReplyReq (JStr ''c1'') (JStr ''7'') ''6''), Log ReturningData]) \<and>
   extract_comment_replies (env_thread reply_page_text) 2
       (JObj (dict_set comment_many ''reply_comment'' (JList []))) (JStr ''alice'') [] =
     Some (Inr (JList [reply_alice_marked]),
       [Get (ReplyReq (JStr ''c1'') (JStr ''7'') ''0''), Log ReturningData,
        Get (ReplyReq (JStr ''c1'') (JStr ''7'') ''6''), Log ReturningData])"
proof -
  have a: "py_get (JObj comment_few) ''reply_comment_total'' (JInt 0) = Inr (JInt 3)"
    by (simp add: py_get_def comment_few_def)
  have b: "py_get (JObj comment_many) ''reply_comment_total'' (JInt 0) = Inr (JInt 5)"
    by (simp add: py_get_def comment_many_def)
  have i3: "as_int (JInt 3) = Some 3" and i5: "as_int (JInt 5) = Some 5"
    by (simp_all add: as_int_def)
  have inl: "py_get (JObj comment_few) ''reply_comment'' (JList []) = Inr (JList [reply_alice, reply_carol])"
    by (simp add: py_get_def comment_few_def)
  from inline_or_fetched_replies[OF a i3, of "env_post_status 200" 0 "JStr ''alice''" "[]"]
    inline_or_fetched_replies[OF b i5, of "env_thread reply_page_text" 2 "JStr ''alice''" "[]"]
    run_thread_numeric inl
  show ?thesis by simp
qed

subsection \<open>C6: the cursor of the reply loop\<close>

text \<open>
  C6, as the code has it. After a fetch that returned a non-empty batch, the loop applies
  \<^verbatim>\<open>cursor += 1\<close> to the cursor the fetch returned, which is the \<^verbatim>\<open>cursor\<close> entry of
  the decoded page, or \<^verbatim>\<open>''\<close> when the page has none. When that value is an integer
  \<open>c\<close>, the loop goes on and its next request carries \<^verbatim>\<open>str(c + 1)\<close>. When it is not a
  number, and so whenever it is a string, the increment raises \<^verbatim>\<open>TypeError\<close>: the loop
  ends with that exception and sends no further request.
\<close>

theorem reply_cursor_increment:
  assumes "fetch_comment_replies E cid vid (py_str_int cursor) uid w = (Inr (new, cur), w1)"
    and "new \<noteq> []"
  shows "(\<exists>body j. http_get E w (ReplyReq cid vid (py_str_int cursor)) = Status 200 body \<and>
            json_loads E body = Some j \<and> py_get j ''cursor'' (JStr []) = Inr cur) \<and>
         (\<forall>c. as_int cur = Some c \<longrightarrow>
            reply_pages E (Suc n) cid vid uid cursor replies w =
              reply_pages E n cid vid uid (c + 1) (replies @ new) w1 \<and>
            (\<forall>r w'. reply_pages E n cid vid uid (c + 1) (replies @ new) w1 = Some (r, w') \<longrightarrow>
               (\<exists>rest. w' = w1 @ Get (ReplyReq cid vid (py_str_int (c + 1))) # rest))) \<and>
         (as_int cur = None \<longrightarrow>
            reply_pages E (Suc n) cid vid uid cursor replies w = Some (Inl TypeError, w1)) \<and>
         (\<forall>t. cur = JStr t \<longrightarrow>
            reply_pages E (Suc n) cid vid uid cursor replies w = Some (Inl TypeError, w1))"
  using assms fetch_comment_replies_cursor[OF assms(1)]
  by (auto simp: py_add_one_def as_int_def dest: reply_pages_first_fetch)

text \<open>The claim as written, that the returned cursor is a string and the loop cannot go
  past a non-empty batch without an error, fails on a page whose cursor is the number 5:
  the fetch returns the integer, and the loop goes on to request cursor \<^verbatim>\<open>"6"\<close> and
  returns the replies.\<close>

theorem reply_loop_advances_on_numeric_cursor:
  "fetch_comment_replies (env_thread reply_page_text) (JStr ''c1'') (JStr ''7'') ''0'' (JStr ''alice'') [] =
     (Inr ([reply_alice_marked], JInt 5), [Get (ReplyReq (JStr ''c1'') (JStr ''7'') ''0''), Log ReturningData]) \<and>
   extract_comment_replies (env_thread reply_page_text) 2 (JObj comment_many) (JStr ''alice'') [] =
     Some (Inr (JList [reply_alice_marked]),
       [Get (ReplyReq (JStr ''c1'') (JStr ''7'') ''0''), Log ReturningData,
        Get (ReplyReq (JStr ''c1'') (JStr ''7'') ''6''), Log ReturningData])"
  by (simp add: fetch_thread_first run_thread_numeric)

text \<open>Both cases of the theorem on the example thread: the numeric cursor 5 leads to the
  loop at cursor 6, the textual cursor \<^verbatim>\<open>"next"\<close> to \<^verbatim>\<open>TypeError\<close>.\<close>

theorem reply_cursor_increment_witness:
  "reply_pages (env_thread reply_page_text) (Suc 1) (JStr ''c1'') (JStr ''7'') (JStr ''alice'') 0 [] [] =
     reply_pages (env_thread reply_page_text) 1 (JStr ''c1'') (JStr ''7'') (JStr ''alice'') 6 [reply_alice_marked]
       [Get (ReplyReq (JStr ''c1'') (JStr ''7'') ''0''), Log ReturningData] \<and>
   reply_pages (env_thread reply_page_token_text) (Suc 1) (JStr ''c1'') (JStr ''7'') (JStr ''alice'') 0 [] [] =
     Some (Inl TypeError, [Get (ReplyReq (JStr ''c1'') (JStr ''7'') ''0''), Log ReturningData])"
proof -
  have a: "fetch_comment_replies (env_thread reply_page_text) (JStr ''c1'') (JStr ''7'') (py_str_int 0) (JStr ''alice'') [] =
    (Inr ([reply_alice_marked], JInt 5), [Get (ReplyReq (JStr ''c1'') (JStr ''7'') ''0''), Log ReturningData])"
    by (simp add: str0 fetch_thread_first)
  have b: "fetch_comment_replies (env_thread reply_page_token_text) (JStr ''c1'') (JStr ''7'') (py_str_int 0) (JStr ''alice'') [] =
    (Inr ([reply_alice_marked], JStr ''next''), [Get (ReplyReq (JStr ''c1'') (JStr ''7'') ''0''), Log ReturningData])"
    by (simp add: str0 fetch_thread_token)
  have ne: "[reply_alice_marked] \<noteq> []" by simp
  from reply_cursor_increment[OF a ne, of 1 "[]"] reply_cursor_increment[OF b ne, of 1 "[]"]
  show ?thesis by (simp add: as_int_def)
qed

subsection \<open>C7: process\_video\_item never raises\<close>




subsection \<open>C8: a failed profile request\<close>

text \<open>
  C8. \<^verbatim>\<open>get_author_metadata\<close> always returns a value, never an exception. When the
  fetch fails or the page does not parse, the value is the empty dictionary. When it
  returns the empty dictionary for the author of an item and the \<^verbatim>\<open>try\<close> of
  \<^verbatim>\<open>process_video_item\<close> on that item runs to its end, the record assembled there has
  as its author the dictionary \<^verbatim>\<open>item['author']\<close>, unchanged, and as its engagement rate
  the rate computed from the item; this record, with the comments extracted after the
  profile request, is the one handed to \<^verbatim>\<open>save_video_data\<close>, whose return ends
  \<^verbatim>\<open>process_video_item\<close>.
\<close>

theorem get_author_metadata_never_fails:
  "(\<exists>v. fst (get_author_metadata E uid w) = Inr v) \<and>
   (profile_fetch_fails E uid w \<or> profile_parse_fails E uid w \<longrightarrow>
      fst (get_author_metadata E uid w) = Inr (JObj [])) \<and>
   (\<forall>rate u w'.
      item_prelude item = Inr (rate, uid) \<longrightarrow>
      fst (get_author_metadata E uid w) = Inr (JObj []) \<longrightarrow>
      process_video_item_try E fuel item w = Some (Inr u, w') \<longrightarrow>
      (\<exists>ad p vid unique_id cs wb.
         py_subscript item ''author'' = Inr (JObj ad) \<and>
         item_engagement_rate item = Inr rate \<and>
         item_assembly item (JObj []) rate = Inr (p, vid, unique_id) \<and>
         author p = ad \<and> engagement_rate p = rate \<and>
         extract_comments E fuel vid unique_id (snd (get_author_metadata E uid w)) = Some (Inr cs, wb) \<and>
         save_video_data E (p\<lparr>comments := Some cs\<rparr>) wb = (Inr u, w') \<and>
         process_video_item E fuel item w = Some (Inr (), w')))"
proof (intro conjI allI impI)
  show "\<exists>v. fst (get_author_metadata E uid w) = Inr v" by (rule get_author_metadata_returns)
next
  assume "profile_fetch_fails E uid w \<or> profile_parse_fails E uid w"
  then show "fst (get_author_metadata E uid w) = Inr (JObj [])"
    using get_author_metadata_fetch_fails[of E uid w] get_author_metadata_parse_fails[of E uid w]
    by blast
next
  fix rate u w'
  assume pre: "item_prelude item = Inr (rate, uid)"
    and emp: "fst (get_author_metadata E uid w) = Inr (JObj [])"
    and run: "process_video_item_try E fuel item w = Some (Inr u, w')"
  obtain wa where g: "get_author_metadata E uid w = (Inr (JObj []), wa)"
    using emp by (cases "get_author_metadata E uid w") simp
  from pre have rate: "item_engagement_rate item = Inr rate"
    by (auto simp: item_prelude_def bindE_def split: sum.splits)
  from run pre g obtain p vid unique_id where
    asm: "item_assembly item (JObj []) rate = Inr (p, vid, unique_id)"
    by (cases "item_assembly item (JObj []) rate") (auto simp: process_video_item_try_steps)
  then obtain p0 where b: "build_processed_item item (JObj []) rate = Inr p0" and pp: "p = p0"
    by (auto simp: item_assembly_def bindE_def split: sum.splits)
  from build_processed_item_empty_stats[OF b] pp
  have au: "py_subscript item ''author'' = Inr (JObj (author p))" and er: "engagement_rate p = rate"
    by simp_all
  from run pre g asm obtain x where x: "extract_comments E fuel vid unique_id wa = Some x"
    by (cases "extract_comments E fuel vid unique_id wa") (auto simp: process_video_item_try_steps)
  obtain rc wb where xc: "x = (rc, wb)" by (cases x)
  from extract_comments_no_raise[OF x[unfolded xc]] obtain cs where rc: "rc = Inr cs" by blast
  have ec: "extract_comments E fuel vid unique_id wa = Some (Inr cs, wb)" using x xc rc by simp
  from run pre g asm ec have sv: "save_video_data E (p\<lparr>comments := Some cs\<rparr>) wb = (Inr u, w')"
    by (simp add: process_video_item_try_steps)
  from run have pv: "process_video_item E fuel item w = Some (Inr (), w')"
    by (simp add: process_video_item_def)
  from g have sg: "snd (get_author_metadata E uid w) = wa" by simp
  from au rate asm er ec sv pv
  show "\<exists>ad p vid unique_id cs wb.
         py_subscript item ''author'' = Inr (JObj ad) \<and>
         item_engagement_rate item = Inr rate \<and>
         item_assembly item (JObj []) rate = Inr (p, vid, unique_id) \<and>
         author p = ad \<and> engagement_rate p = rate \<and>
         extract_comments E fuel vid unique_id (snd (get_author_metadata E uid w)) = Some (Inr cs, wb) \<and>
         save_video_data E (p\<lparr>comments := Some cs\<rparr>) wb = (Inr u, w') \<and>
         process_video_item E fuel item w = Some (Inr (), w')"
    unfolding sg by blast
qed

text \<open>Scenario E on the example item: the profile request is refused, the statistics are
  empty, and the record that is saved keeps the two author fields and the rate
  20.0.\<close>

theorem get_author_metadata_never_fails_witness:
  "profile_fetch_fails env_search (JStr ''alice'') [] \<and>
   fst (get_author_metadata env_search (JStr ''alice'') []) = Inr (JObj []) \<and>
   item_prelude demo_item = Inr (PFloat (Finite 5629499534213120 (- 48)), JStr ''alice'') \<and>
   process_video_item_try env_search (Suc 0) demo_item [] =
     Some (Inr (),
       [Get (ProfileReq (JStr ''alice'')), Log (UnableStatus 404), Log (AuthorMetadataError TypeError),
        Get (CommentReq (JStr ''7'') 0 20), Log (UnableStatus 404), Log (CommentExtractionError TypeError),
        Post demo_item_form, Log ReturningData, Log (SavedSuccessfully (JStr ''7''))]) \<and>
   (\<exists>p vid unique_id cs wb.
      item_assembly demo_item (JObj []) (PFloat (Finite 5629499534213120 (- 48))) = Inr (p, vid, unique_id) \<and>
      author p = [(''uniqueId'', JStr ''alice''), (''nickname'', JStr ''Alice'')] \<and>
      engagement_rate p = PFloat (Finite 5629499534213120 (- 48)) \<and>
      save_video_data env_search (p\<lparr>comments := Some cs\<rparr>) wb =
        (Inr (),
         [Get (ProfileReq (JStr ''alice'')), Log (UnableStatus 404), Log (AuthorMetadataError TypeError),
          Get (CommentReq (JStr ''7'') 0 20), Log (UnableStatus 404), Log (CommentExtractionError TypeError),
          Post demo_item_form, Log ReturningData, Log (SavedSuccessfully (JStr ''7''))]))"
proof -
  let ?w9 = "[Get (ProfileReq (JStr ''alice'')), Log (UnableStatus 404), Log (AuthorMetadataError TypeError),
        Get (CommentReq (JStr ''7'') 0 20), Log (UnableStatus 404), Log (CommentExtractionError TypeError),
        Post demo_item_form, Log ReturningData, Log (SavedSuccessfully (JStr ''7''))]"
  let ?rate = "PFloat (Finite 5629499534213120 (- 48))"
  note t = get_author_metadata_never_fails[of env_search "JStr ''alice''" "[]" demo_item "Suc 0"]
  have f: "profile_fetch_fails env_search (JStr ''alice'') []"
    by (simp add: profile_fetch_fails_def env_search_def)
  with t have emp: "fst (get_author_metadata env_search (JStr ''alice'') []) = Inr (JObj [])" by blast
  have run: "process_video_item_try env_search (Suc 0) demo_item [] = Some (Inr (), ?w9)"
    using run_demo_item_try[of "[]"] by simp
  from t demo_item_prelude emp run obtain ad p vid unique_id cs wb where
    a: "py_subscript demo_item ''author'' = Inr (JObj ad)"
    and b: "item_assembly demo_item (JObj []) ?rate = Inr (p, vid, unique_id)"
    and c: "author p = ad" "engagement_rate p = ?rate"
    and d: "save_video_data env_search (p\<lparr>comments := Some cs\<rparr>) wb = (Inr (), ?w9)"
    by blast
  have "py_subscript demo_item ''author'' = Inr (JObj [(''uniqueId'', JStr ''alice''), (''nickname'', JStr ''Alice'')])"
    by (simp add: demo_item_def py_subscript_def)
  with a c(1) have "author p = [(''uniqueId'', JStr ''alice''), (''nickname'', JStr ''Alice'')]" by simp
  with b c(2) d have "\<exists>p vid unique_id cs wb.
      item_assembly demo_item (JObj []) ?rate = Inr (p, vid, unique_id) \<and>
      author p = [(''uniqueId'', JStr ''alice''), (''nickname'', JStr ''Alice'')] \<and>
      engagement_rate p = ?rate \<and>
      save_video_data env_search (p\<lparr>comments := Some cs\<rparr>) wb = (Inr (), ?w9)"
    by blast
  with f emp demo_item_prelude run show ?thesis by blast
qed

subsection \<open>C9: the answer to the POST\<close>

text \<open>
  C9, as the code has it. \<^verbatim>\<open>input_data_to_api\<close> sends one POST and never a second.
  Status 200 returns the body. Status 422 has a branch of its own, which does nothing: no
  log line, no retry; the function then returns \<^verbatim>\<open>None\<close>, the value it returns for every
  other status but 200, where it also logs the status.
\<close>

theorem input_data_to_api_statuses:
  assumes "http_post E w f = Status code body"
  shows "fst (input_data_to_api E f w) = (if code = 200 then Inr (Some body) else Inr None) \<and>
     posts (snd (input_data_to_api E f w)) = posts w @ [f] \<and>
     (code = 422 \<longrightarrow> snd (input_data_to_api E f w) = w @ [Post f]) \<and>
     (code \<noteq> 200 \<and> code \<noteq> 422 \<longrightarrow>
        snd (input_data_to_api E f w) = w @ [Post f, Log (UnableStatus code)])"
  using assms by (simp add: input_data_to_api_def posts_def)

text \<open>The claim as written, that status 422 returns success unlike the other statuses,
  fails: status 422 returns \<^verbatim>\<open>None\<close>, and so does status 500.\<close>

theorem input_data_to_api_422_returns_none:
  "fst (input_data_to_api (env_post_status 422) demo_form []) = Inr None \<and>
   fst (input_data_to_api (env_post_status 500) demo_form []) = Inr None"
  by (simp add: input_data_to_api_def env_post_status_def)

theorem input_data_to_api_statuses_witness:
  "http_post (env_post_status 422) [] demo_form = Status 422 [] \<and>
   input_data_to_api (env_post_status 422) demo_form [] = (Inr None, [Post demo_form]) \<and>
   posts [Post demo_form] = [demo_form]"
  using input_data_to_api_statuses[of "env_post_status 422" "[]" demo_form 422 "[]"]
  by (simp add: env_post_status_def prod_eq_iff posts_def)

subsection \<open>C10: the list that is never filled\<close>

text \<open>
  C10. \<^verbatim>\<open>process_video_item\<close> and all it calls neither read nor write the scraper: the
  list \<^verbatim>\<open>total_data\<close> is the one \<^verbatim>\<open>__init__\<close> made, empty. So for a positive
  \<^verbatim>\<open>max_influencers\<close>, when \<^verbatim>\<open>extract_influencers\<close> returns, it returns the empty list,
  \<^verbatim>\<open>total_data\<close> is still empty, and the loop ended in its \<^verbatim>\<open>except\<close> branch on an
  exception of the fetch and parse step of some page, at an offset that is a multiple of
  20.
\<close>

theorem total_data_never_grows:
  assumes "extract_influencers E fuel (init_scraper keyword m) w = Some (res, s', w')"
    and "0 < m"
  shows "res = [] \<and> total_data s' = [] \<and>
     (\<exists>k e w0 w1. s' = (init_scraper keyword m)\<lparr>offset := 20 * int k\<rparr> \<and>
        search_page E s' w0 = (Inl e, w1) \<and> w' = w1 @ [Log (DataExtractionError e)])"
proof -
  from extract_influencers_inv[OF assms(1)] assms(2)
  obtain k e w0 w1 where
    a: "res = []" "total_data s' = []"
    and b: "s' = (init_scraper keyword m)\<lparr>offset := offset (init_scraper keyword m) + int k * limit (init_scraper keyword m)\<rparr>"
    and c: "search_page E s' w0 = (Inl e, w1)" "w' = w1 @ [Log (DataExtractionError e)]"
    by (auto simp: init_scraper_def)
  from b have "s' = (init_scraper keyword m)\<lparr>offset := 20 * int k\<rparr>"
    by (simp add: init_scraper_def)
  with a c show ?thesis by blast
qed

text \<open>A run in which a record is saved: the example search, whose second page holds the
  example item. The item is processed and its form posted, and the list is still empty
  when the refused request at offset 40 ends the loop.\<close>

theorem total_data_never_grows_witness:
  "(0::int) < 50 \<and>
   (\<exists>s' w'. extract_influencers env_search 3 (init_scraper ''#k-beauty'' 50) [] = Some ([], s', w') \<and>
      total_data s' = [] \<and> offset s' = 40 \<and>
      posts w' = [demo_item_form] \<and>
      (\<exists>e w0 w1. search_page env_search s' w0 = (Inl e, w1) \<and>
         w' = w1 @ [Log (DataExtractionError e)]))"
proof -
  let ?s = "\<lparr>kw = ''#k-beauty'', total_data = [], offset = 40, limit = 20, max_influencers = 50\<rparr>"
  let ?w = "[Get (SearchReq ''#k-beauty'' 0 20), Log ReturningData,
        Get (SearchReq ''#k-beauty'' 20 20), Log ReturningData,
        Get (ProfileReq (JStr ''alice'')), Log (UnableStatus 404), Log (AuthorMetadataError TypeError),
        Get (CommentReq (JStr ''7'') 0 20), Log (UnableStatus 404), Log (CommentExtractionError TypeError),
        Post demo_item_form, Log ReturningData, Log (SavedSuccessfully (JStr ''7'')),
        Get (SearchReq ''#k-beauty'' 40 20), Log (UnableStatus 404),
        Log (DataExtractionError TypeError)]"
  have three: "(3::nat) = Suc (Suc (Suc 0))" by simp
  have run: "extract_influencers env_search 3 (init_scraper ''#k-beauty'' 50) [] = Some ([], ?s, ?w)"
    unfolding three init_scraper_def
    by (simp add: search_page_0 search_page_20 run_demo_item search_page_40)
  have pos: "(0::int) < 50" by simp
  from total_data_never_grows[OF run pos] have
    "\<exists>e w0 w1. search_page env_search ?s w0 = (Inl e, w1) \<and> ?w = w1 @ [Log (DataExtractionError e)]"
    by blast
  moreover have "posts ?w = [demo_item_form]" by (simp add: posts_def)
  moreover have "total_data ?s = []" "offset ?s = 40" by simp_all
  ultimately show ?thesis using run pos by blast
qed

end
